theory Spec2Isabelle
  imports Main "HOL-Library.AList"
begin

section \<open>DailyGammon score synchronizer: the reconciliation run\<close>

text \<open>
  The development embeds \<^verbatim>\<open>main()\<close> of \<^verbatim>\<open>dailygammonNewPW_scores3.py\<close>:
  the workbook is a record of sheets, the run-local dictionaries are association lists
  in insertion order (as Python dictionaries are), every uncaught exception is a value
  of type \<open>error\<close>, and every loop is a recursion over the list it iterates.

  Strings are lists of 8-bit characters and are read as ASCII: \<open>lower\<close>, \<open>strip\<close>,
  \<^verbatim>\<open>\s\<close> and \<^verbatim>\<open>\d\<close> are the ASCII parts of their Python meaning.
  Cell values are \<^verbatim>\<open>None\<close>, integers and strings; floats, booleans and dates
  are not modelled.

  The model starts after the login and the loading of the workbook and ends where the
  workbook is saved. A request is modelled by its outcome (an exception or a response);
  how long it takes is not modelled.
\<close>

subsection \<open>Strings\<close>

definition is_space :: "char \<Rightarrow> bool" where
  "is_space c \<longleftrightarrow> c \<in> set [CHR '' '', CHR 0x09, CHR 0x0A, CHR 0x0B, CHR 0x0C, CHR 0x0D,
                            CHR 0x1C, CHR 0x1D, CHR 0x1E, CHR 0x1F]"

definition is_digit :: "char \<Rightarrow> bool" where
  "is_digit c \<longleftrightarrow> c \<in> set ''0123456789''"

text \<open>\<^verbatim>\<open>s.strip()\<close>\<close>

definition strip :: "string \<Rightarrow> string" where
  "strip s = rev (dropWhile is_space (rev (dropWhile is_space s)))"

text \<open>\<^verbatim>\<open>s.lower()\<close>\<close>

definition lower_char :: "char \<Rightarrow> char" where
  "lower_char c =
     (if (65::nat) \<le> of_char c \<and> of_char c \<le> (90::nat) then char_of (of_char c + (32::nat)) else c)"

definition lower :: "string \<Rightarrow> string" where
  "lower s = map lower_char s"

fun starts_with :: "string \<Rightarrow> string \<Rightarrow> bool" where
  "starts_with [] s = True"
| "starts_with (p # ps) [] = False"
| "starts_with (p # ps) (c # cs) = (p = c \<and> starts_with ps cs)"

text \<open>\<^verbatim>\<open>sub in s\<close>\<close>

fun contains :: "string \<Rightarrow> string \<Rightarrow> bool" where
  "contains sub [] = (sub = [])"
| "contains sub (c # cs) = (starts_with sub (c # cs) \<or> contains sub cs)"

text \<open>\<^verbatim>\<open>s.find(sub)\<close>, \<open>None\<close> for \<^verbatim>\<open>-1\<close>\<close>

fun find_pos :: "string \<Rightarrow> string \<Rightarrow> nat option" where
  "find_pos sub [] = (if sub = [] then Some 0 else None)"
| "find_pos sub (c # cs) =
     (if starts_with sub (c # cs) then Some 0 else map_option Suc (find_pos sub cs))"

text \<open>\<^verbatim>\<open>url.rsplit("/", 1)[-1]\<close>: what follows the last slash, the whole string without one\<close>

definition rsplit_last :: "string \<Rightarrow> string" where
  "rsplit_last url = rev (takeWhile (\<lambda>c. c \<noteq> CHR ''/'') (rev url))"

text \<open>\<^verbatim>\<open>text.splitlines()\<close>: line boundaries are \<^verbatim>\<open>\n\<close>, \<^verbatim>\<open>\r\<close>, \<^verbatim>\<open>\r\n\<close>,
  \<^verbatim>\<open>\v\<close>, \<^verbatim>\<open>\f\<close> and the separators 0x1C to 0x1E; no empty last line\<close>

definition is_linebreak :: "char \<Rightarrow> bool" where
  "is_linebreak c \<longleftrightarrow> c \<in> set [CHR 0x0A, CHR 0x0B, CHR 0x0C, CHR 0x0D, CHR 0x1C, CHR 0x1D, CHR 0x1E]"

fun splitlines_acc :: "string \<Rightarrow> string \<Rightarrow> string list" where
  "splitlines_acc cur [] = (if cur = [] then [] else [cur])"
| "splitlines_acc cur [c] = (if is_linebreak c then [cur] else [cur @ [c]])"
| "splitlines_acc cur (c # d # cs) =
     (if c = CHR 0x0D \<and> d = CHR 0x0A then cur # splitlines_acc [] cs
      else if is_linebreak c then cur # splitlines_acc [] (d # cs)
      else splitlines_acc (cur @ [c]) (d # cs))"

definition splitlines :: "string \<Rightarrow> string list" where
  "splitlines text = splitlines_acc [] text"

subsection \<open>Integers and strings\<close>

definition digit_val :: "char \<Rightarrow> nat" where
  "digit_val c = of_char c - 48"

definition nat_of_digits :: "string \<Rightarrow> nat" where
  "nat_of_digits ds = foldl (\<lambda>a c. 10 * a + digit_val c) 0 ds"

fun digits_of :: "nat \<Rightarrow> string" where
  "digits_of n =
     (if n < 10 then [char_of (48 + n)] else digits_of (n div 10) @ [char_of (48 + n mod 10)])"

text \<open>\<^verbatim>\<open>str(n)\<close> for an integer\<close>

definition str_int :: "int \<Rightarrow> string" where
  "str_int n = (if n < 0 then CHR ''-'' # digits_of (nat (- n)) else digits_of (nat n))"

text \<open>
  The digits of an integer literal as \<^verbatim>\<open>int(s)\<close> accepts them: decimal digits, single
  underscores allowed between two digits.
\<close>

fun int_digits_ok :: "string \<Rightarrow> bool" where
  "int_digits_ok [] = False"
| "int_digits_ok [c] = is_digit c"
| "int_digits_ok (c # d # cs) =
     (is_digit c \<and> (if d = CHR ''_'' then int_digits_ok cs else int_digits_ok (d # cs)))"

definition int_of_digits :: "string \<Rightarrow> int option" where
  "int_of_digits ds =
     (if int_digits_ok ds then Some (int (nat_of_digits (filter is_digit ds))) else None)"

text \<open>\<^verbatim>\<open>int(s)\<close> for a string; \<open>None\<close> is \<^verbatim>\<open>ValueError\<close>\<close>

definition int_str :: "string \<Rightarrow> int option" where
  "int_str s =
     (case strip s of
        [] \<Rightarrow> None
      | c # cs \<Rightarrow>
          if c = CHR ''-'' then map_option uminus (int_of_digits cs)
          else if c = CHR ''+'' then int_of_digits cs
          else int_of_digits (c # cs))"

subsection \<open>The regular expressions of the source\<close>

text \<open>
  \<^verbatim>\<open>re.search(pre + r"(\d+)" + post, s)\<close> for literal \<open>pre\<close> and \<open>post\<close>, where \<open>post\<close>
  does not start with a digit: the leftmost place where \<open>pre\<close> is followed by digits and
  then by \<open>post\<close>; the result is the group, the longest run of digits there.
\<close>

fun search_digits :: "string \<Rightarrow> string \<Rightarrow> string \<Rightarrow> string option" where
  "search_digits pre post [] = None"
| "search_digits pre post (c # cs) =
     (let rest = drop (length pre) (c # cs); ds = takeWhile is_digit rest
      in if starts_with pre (c # cs) \<and> ds \<noteq> [] \<and> starts_with post (dropWhile is_digit rest)
         then Some ds
         else search_digits pre post cs)"

definition re_user :: "string \<Rightarrow> string option" where
  "re_user href = search_digits ''/bg/user/'' [] href"

definition re_game :: "string \<Rightarrow> string option" where
  "re_game href = search_digits ''/bg/game/'' ''/0/'' href"

definition re_export :: "string \<Rightarrow> string option" where
  "re_export href = search_digits ''/bg/export/'' [] href"

text \<open>\<^verbatim>\<open>\s*:\s*(\d+)\<close> at the start of a string: the digits of the group\<close>

definition score_tail :: "string \<Rightarrow> string option" where
  "score_tail s =
     (case dropWhile is_space s of
        [] \<Rightarrow> None
      | c # r \<Rightarrow>
          if c = CHR '':'' then
            (let ds = takeWhile is_digit (dropWhile is_space r)
             in if ds = [] then None else Some ds)
          else None)"

text \<open>
  \<^verbatim>\<open>re.match(r"(.+?)\s*:\s*(\d+)", t)\<close>: the lazy group takes the fewest characters
  (at least one, none of them a newline) after which the rest matches.
\<close>

fun score_match_from :: "string \<Rightarrow> string \<Rightarrow> (string \<times> string) option" where
  "score_match_from name [] = None"
| "score_match_from name (c # cs) =
     (if c = CHR 0x0A then None
      else (case score_tail cs of
              Some ds \<Rightarrow> Some (name @ [c], ds)
            | None \<Rightarrow> score_match_from (name @ [c]) cs))"

definition score_match :: "string \<Rightarrow> (string \<times> string) option" where
  "score_match t = score_match_from [] t"

subsection \<open>Cells, pages and the remote site\<close>

datatype cell = Empty | IntV int | StrV string

text \<open>Python truthiness: \<^verbatim>\<open>None\<close>, \<^verbatim>\<open>0\<close> and \<^verbatim>\<open>""\<close> are false\<close>

fun truthy :: "cell \<Rightarrow> bool" where
  "truthy Empty = False"
| "truthy (IntV n) = (n \<noteq> 0)"
| "truthy (StrV s) = (s \<noteq> [])"

text \<open>\<^verbatim>\<open>str(v)\<close>\<close>

fun py_str :: "cell \<Rightarrow> string" where
  "py_str Empty = ''None''"
| "py_str (IntV n) = str_int n"
| "py_str (StrV s) = s"

text \<open>\<^verbatim>\<open>int(v)\<close>; \<open>None\<close> is the exception\<close>

fun py_int :: "cell \<Rightarrow> int option" where
  "py_int Empty = None"
| "py_int (IntV n) = Some n"
| "py_int (StrV s) = int_str s"

datatype error = HTTPError | ConnectionError | ValueError | TypeError

text \<open>
  What \<^verbatim>\<open>session.get\<close> does: it raises a \<^verbatim>\<open>requests.RequestException\<close> (timeout,
  transport failure) or returns a response with its \<^verbatim>\<open>ok\<close> flag and its text.
\<close>

datatype response = RequestException | Response bool string

text \<open>
  A table row as BeautifulSoup gives it: \<^verbatim>\<open>row.get_text(" ", strip=True)\<close>, the same text
  of each \<^verbatim>\<open>td\<close> of \<^verbatim>\<open>row.find_all("td")\<close>, and the \<^verbatim>\<open>href\<close> and text of each
  \<^verbatim>\<open>a\<close> element in document order.
\<close>

record tr =
  tr_text :: string
  tr_tds :: "string list"
  tr_links :: "(string \<times> string) list"

text \<open>
  The world outside the workbook. The HTML parser is a parameter: \<open>soup env html\<close> is
  \<^verbatim>\<open>BeautifulSoup(html, "html.parser").find_all("tr")\<close>. The three page functions answer
  the three kinds of request, the same way each time they are asked (the remote data are
  fixed during a run); \<open>season\<close> is the season string built from the command line.
\<close>

record env =
  soup :: "string \<Rightarrow> tr list"
  match_page :: "int \<Rightarrow> response"
  user_page :: "string \<Rightarrow> response"
  export_page :: "int \<Rightarrow> response"
  season :: string

datatype request = GetMatch int | GetUser string | GetExport int

subsection \<open>The workbook and the dictionaries of a run\<close>

text \<open>
  The sheets: \<open>players_sheet\<close> is column A of "Players" from row 2 (value and hyperlink
  target); \<open>links_colA\<close> and \<open>links_row1\<close> are the headers of "Links" (from A2 downwards,
  from B1 rightwards), \<open>matches_colA\<close> is column A of "Matches" from row 4; beyond the
  end of each list the cells are empty. \<open>ws_links\<close>, \<open>ws_flag\<close> and \<open>ws_matches\<close> give
  the value at (row, column) of "Links", "match\_flag" and "Matches" (a sheet that does
  not exist yet is an empty one), \<open>ws_control\<close> is cell A1 of "control". The code writes
  to "Links" and "Matches" at rows and columns from 2 on only, never to the headers.
  \<open>requests\<close> is the log of the requests sent, in order.
\<close>

record state =
  players_sheet :: "(cell \<times> string option) list"
  links_colA :: "cell list"
  links_row1 :: "cell list"
  matches_colA :: "cell list"
  ws_links :: "nat \<times> nat \<Rightarrow> cell"
  links_hyperlink :: "nat \<times> nat \<Rightarrow> string option"
  ws_flag :: "nat \<times> nat \<Rightarrow> cell"
  ws_control :: cell
  ws_matches :: "nat \<times> nat \<Rightarrow> cell"
  matches :: "((string \<times> string) \<times> int) list"
  matches_by_hand :: "((string \<times> string) \<times> (int \<times> bool)) list"
  match_id_to_excel :: "(int \<times> (string \<times> string \<times> bool)) list"
  html_cache :: "(int \<times> string option) list"
  finished_by_id :: "(int \<times> string) list"
  requests :: "request list"

text \<open>\<^verbatim>\<open>xs.index(x)\<close>; \<open>None\<close> is \<^verbatim>\<open>ValueError\<close>\<close>

fun index_of :: "'a list \<Rightarrow> 'a \<Rightarrow> nat option" where
  "index_of [] x = None"
| "index_of (y # ys) x = (if y = x then Some 0 else map_option Suc (index_of ys x))"

text \<open>A dictionary built from key-value pairs in order: a later pair replaces an earlier one.\<close>

definition dict_of :: "('k \<times> 'v) list \<Rightarrow> ('k \<times> 'v) list" where
  "dict_of kvs = fold (\<lambda>(k, v). AList.update k v) kvs []"

definition players :: "state \<Rightarrow> string list" where
  "players s = map (\<lambda>(v, h). strip (py_str v)) (filter (\<lambda>(v, h). truthy v) (players_sheet s))"

definition player_ids :: "state \<Rightarrow> (string \<times> string) list" where
  "player_ids s =
     dict_of (concat (map (\<lambda>(v, h). case h of
                                      None \<Rightarrow> []
                                    | Some url \<Rightarrow> [(strip (py_str v), rsplit_last url)])
                          (filter (\<lambda>(v, h). truthy v) (players_sheet s))))"

definition row_players_links :: "state \<Rightarrow> string list" where
  "row_players_links s = map (\<lambda>v. strip (py_str v)) (takeWhile truthy (links_colA s))"

definition col_opponents_links :: "state \<Rightarrow> string list" where
  "col_opponents_links s = map (\<lambda>v. strip (py_str v)) (takeWhile truthy (links_row1 s))"

definition col_index_links :: "state \<Rightarrow> (string \<times> nat) list" where
  "col_index_links s = dict_of (map (\<lambda>(i, name). (name, 2 + i)) (enumerate 0 (col_opponents_links s)))"

definition players_in_matches :: "state \<Rightarrow> string list" where
  "players_in_matches s = map (\<lambda>v. strip (py_str v)) (takeWhile truthy (matches_colA s))"

subsection \<open>Fetching and reading a match page\<close>

definition fetch_list_html :: "env \<Rightarrow> int \<Rightarrow> state \<Rightarrow> string option \<times> state" where
  "fetch_list_html env match_id s =
     ((case match_page env match_id of
         RequestException \<Rightarrow> None
       | Response ok text \<Rightarrow> if \<not> ok \<or> contains ''Please Login'' text then None else Some text),
      s\<lparr>requests := requests s @ [GetMatch match_id]\<rparr>)"

text \<open>\<^verbatim>\<open>not html\<close> for a value that is \<^verbatim>\<open>None\<close> or a string\<close>

definition no_html :: "string option \<Rightarrow> bool" where
  "no_html h \<longleftrightarrow> h = None \<or> h = Some []"

text \<open>The loop of \<^verbatim>\<open>extract_latest_score\<close> over the rows, last row first.\<close>

fun latest_score :: "tr list \<Rightarrow> string list \<Rightarrow> (string \<times> string \<times> int \<times> int) option" where
  "latest_score [] players_list = None"
| "latest_score (row # rows) players_list =
     (if \<not> list_ex (\<lambda>p. contains p (tr_text row)) players_list then latest_score rows players_list
      else if 3 \<le> length (tr_tds row) then
        (case score_match (tr_tds row ! 1) of
           None \<Rightarrow> latest_score rows players_list
         | Some (left_name, left_score) \<Rightarrow>
             (case score_match (tr_tds row ! 2) of
                None \<Rightarrow> latest_score rows players_list
              | Some (right_name, right_score) \<Rightarrow>
                  Some (strip left_name, strip right_name,
                        int (nat_of_digits left_score), int (nat_of_digits right_score))))
      else latest_score rows players_list)"

definition extract_latest_score ::
  "env \<Rightarrow> string \<Rightarrow> string list \<Rightarrow> (string \<times> string \<times> int \<times> int) option" where
  "extract_latest_score env html players_list = latest_score (rev (soup env html)) players_list"

definition map_scores_for_excel ::
  "string \<Rightarrow> string \<Rightarrow> string \<Rightarrow> string \<Rightarrow> int \<Rightarrow> int \<Rightarrow> bool \<Rightarrow> (int \<times> int) option" where
  "map_scores_for_excel player opponent left_name right_name left_score right_score switched_flag =
     (let ln = lower (strip left_name); rn = lower (strip right_name);
          pn = lower (strip player); on = lower (strip opponent)
      in if switched_flag then Some (right_score, left_score)
         else if ln = pn \<and> rn = on then Some (left_score, right_score)
         else if ln = on \<and> rn = pn then Some (right_score, left_score)
         else if contains pn ln \<or> contains pn rn \<or> contains on ln \<or> contains on rn then
           (if contains pn ln then Some (left_score, right_score)
            else if contains pn rn then Some (right_score, left_score)
            else None)
         else None)"

subsection \<open>Loops\<close>

text \<open>A \<^verbatim>\<open>for\<close> loop whose body may raise: the first exception ends the loop.\<close>

fun for_each :: "('a \<Rightarrow> 's \<Rightarrow> error + 's) \<Rightarrow> 'a list \<Rightarrow> 's \<Rightarrow> error + 's" where
  "for_each body [] s = Inr s"
| "for_each body (x # xs) s =
     (case body x s of Inl e \<Rightarrow> Inl e | Inr s' \<Rightarrow> for_each body xs s')"

text \<open>
  \<^verbatim>\<open>row.find("a", href=re.compile(pattern))\<close> followed by the group of the same
  pattern in the link found: the first link whose \<^verbatim>\<open>href\<close> matches, as the group and
  the text of the link.
\<close>

fun find_link :: "(string \<Rightarrow> string option) \<Rightarrow> (string \<times> string) list \<Rightarrow> (string \<times> string) option" where
  "find_link re [] = None"
| "find_link re ((href, txt) # ls) =
     (case re href of Some ds \<Rightarrow> Some (ds, txt) | None \<Rightarrow> find_link re ls)"

subsection \<open>Sheets "match\_flag" and "control", start of a run\<close>

definition sentinel :: string where
  "sentinel = ''All match IDs filled''"

text \<open>The dictionaries of lines 385 to 389 and the request log are empty when a run starts.\<close>

definition start :: "state \<Rightarrow> state" where
  "start s = s\<lparr>matches := [], matches_by_hand := [], match_id_to_excel := [],
               html_cache := [], finished_by_id := [], requests := []\<rparr>"

text \<open>Row 1 and column A of "match\_flag" receive the names of the "Links" headers.\<close>

definition write_flag_headers :: "state \<Rightarrow> state" where
  "write_flag_headers s =
     s\<lparr>ws_flag :=
         fold (\<lambda>(row_idx, player_name) f. f((row_idx, 1) := StrV player_name))
              (enumerate 2 (row_players_links s))
              (fold (\<lambda>(col_idx, opp_name) f. f((1, col_idx) := StrV opp_name))
                    (enumerate 2 (col_opponents_links s))
                    (ws_flag s))\<rparr>"

definition skip_fetching :: "state \<Rightarrow> bool" where
  "skip_fetching s \<longleftrightarrow> ws_control s = StrV sentinel"

subsection \<open>Step 1: check existing links\<close>

text \<open>\<^verbatim>\<open>html_cache.get(match_id)\<close>\<close>

definition cache_get :: "state \<Rightarrow> int \<Rightarrow> string option" where
  "cache_get s match_id = (case map_of (html_cache s) match_id of None \<Rightarrow> None | Some h \<Rightarrow> h)"

text \<open>
  The two assignments \<^verbatim>\<open>matches[(player_name, opp)] = match_id\<close> and
  \<^verbatim>\<open>match_id_to_excel[match_id] = (player_name, opp, False)\<close>, which Step 1 makes in
  four of its five outcomes.
\<close>

definition register_normal :: "string \<Rightarrow> string \<Rightarrow> int \<Rightarrow> state \<Rightarrow> state" where
  "register_normal player_name opp match_id s =
     s\<lparr>matches := AList.update (player_name, opp) match_id (matches s),
       match_id_to_excel := AList.update match_id (player_name, opp, False) (match_id_to_excel s)\<rparr>"

definition register_switched :: "string \<Rightarrow> string \<Rightarrow> int \<Rightarrow> state \<Rightarrow> state" where
  "register_switched player_name opp match_id s =
     s\<lparr>matches_by_hand := AList.update (player_name, opp) (match_id, True) (matches_by_hand s),
       match_id_to_excel := AList.update match_id (player_name, opp, True) (match_id_to_excel s)\<rparr>"

text \<open>
  The body of the inner loop of Step 1, for the row \<open>i\<close> of \<open>player_name\<close> and the column
  of \<open>opp\<close>. A value that \<^verbatim>\<open>int\<close> rejects twice leaves the run with \<^verbatim>\<open>ValueError\<close>.
  The branches for a name without a column and for a player without a row are those of
  Python (\<^verbatim>\<open>cell(column=None)\<close>, \<^verbatim>\<open>index\<close>); the loops never reach them, as
  both names come from the headers.
\<close>

definition step1_cell :: "env \<Rightarrow> nat \<Rightarrow> string \<Rightarrow> string \<Rightarrow> state \<Rightarrow> error + state" where
  "step1_cell env i player_name opp s =
     (if player_name = opp then Inr s
      else case map_of (col_index_links s) opp of
        None \<Rightarrow> Inl TypeError
      | Some c \<Rightarrow>
         (let val = ws_links s (i, c)
          in if \<not> truthy val then Inr s
             else case (case py_int val of Some n \<Rightarrow> Some n | None \<Rightarrow> int_str (strip (py_str val))) of
               None \<Rightarrow> Inl ValueError
             | Some match_id \<Rightarrow>
                (case index_of (row_players_links s) player_name of
                   None \<Rightarrow> Inl ValueError
                 | Some ri \<Rightarrow>
                    (let row_idx_flag = ri + 2;
                         flag_val = ws_flag s (row_idx_flag, c);
                         s1 = (if flag_val = Empty
                               then (case fetch_list_html env match_id s of
                                       (h, s') \<Rightarrow> s'\<lparr>html_cache := AList.update match_id h (html_cache s')\<rparr>)
                               else s\<lparr>html_cache := AList.update match_id None (html_cache s)\<rparr>);
                         html = cache_get s1 match_id
                     in case html of
                          None \<Rightarrow> Inr (register_normal player_name opp match_id s1)
                        | Some h \<Rightarrow>
                            if h = [] then Inr (register_normal player_name opp match_id s1)
                            else (case extract_latest_score env h [player_name, opp] of
                                    None \<Rightarrow> Inr (register_normal player_name opp match_id s1)
                                  | Some (left_name, right_name, ls, rs) \<Rightarrow>
                                     (let ln = lower left_name; rn = lower right_name;
                                          pn = lower player_name; on = lower opp
                                      in if ln = pn \<and> rn = on
                                         then Inr (register_normal player_name opp match_id s1)
                                         else if ln = on \<and> rn = pn
                                         then Inr (register_switched player_name opp match_id s1)
                                         else Inr (register_normal player_name opp match_id s1)))))))"

definition step1 :: "env \<Rightarrow> state \<Rightarrow> error + state" where
  "step1 env s =
     for_each (\<lambda>(i, player_name). for_each (step1_cell env i player_name) (col_opponents_links s))
              (enumerate 2 (row_players_links s)) s"

subsection \<open>Step 2: fill missing match identifiers\<close>

text \<open>
  \<^verbatim>\<open>get_player_matches\<close>: the request has no exception handler, so a transport failure
  or a response that is not a success leaves the run.
\<close>

definition player_match_of_row :: "string \<Rightarrow> tr \<Rightarrow> (string \<times> string \<times> string) list" where
  "player_match_of_row season_str row =
     (if \<not> contains season_str (tr_text row) then []
      else case find_link re_user (tr_links row) of
        None \<Rightarrow> []
      | Some (opponent_id, otext) \<Rightarrow>
         (case find_link re_game (tr_links row) of
            None \<Rightarrow> []
          | Some (match_id, mtext) \<Rightarrow> [(strip otext, opponent_id, match_id)]))"

definition get_player_matches ::
  "env \<Rightarrow> string \<Rightarrow> state \<Rightarrow> error + ((string \<times> string \<times> string) list \<times> state)" where
  "get_player_matches env player_id s =
     (case user_page env player_id of
        RequestException \<Rightarrow> Inl ConnectionError
      | Response ok text \<Rightarrow>
          if \<not> ok then Inl HTTPError
          else Inr (concat (map (player_match_of_row (season env)) (soup env text)),
                    s\<lparr>requests := requests s @ [GetUser player_id]\<rparr>))"

text \<open>The body of the inner loop of Step 2; \<open>match_id\<close> is the digits found in the link.\<close>

definition step2_match :: "string \<Rightarrow> string \<times> string \<times> string \<Rightarrow> state \<Rightarrow> state" where
  "step2_match player pm s =
     (case pm of (opponent_name, opponent_id, match_id) \<Rightarrow>
        if map_of (matches s) (player, opponent_name) \<noteq> None
           \<or> map_of (matches_by_hand s) (player, opponent_name) \<noteq> None then s
        else
          (let mid_int = int (nat_of_digits match_id);
               switched_flag = (case map_of (match_id_to_excel s) mid_int of
                                  Some (p, opp, sw) \<Rightarrow> sw | None \<Rightarrow> False);
               s1 = s\<lparr>matches := AList.update (player, opponent_name) mid_int (matches s),
                      match_id_to_excel :=
                        AList.update mid_int (player, opponent_name, switched_flag) (match_id_to_excel s)\<rparr>
           in case index_of (row_players_links s1) player of
                None \<Rightarrow> s1
              | Some ri \<Rightarrow>
                 (case map_of (col_index_links s1) opponent_name of
                    None \<Rightarrow> s1
                  | Some c \<Rightarrow>
                     if c = 0 \<or> opponent_name = player then s1
                     else
                       (let row_idx = ri + 2;
                            s2 = s1\<lparr>ws_flag := (ws_flag s1)((row_idx, c) := IntV (if switched_flag then 1 else 0))\<rparr>
                        in if \<not> truthy (ws_links s2 (row_idx, c))
                           then s2\<lparr>ws_links := (ws_links s2)((row_idx, c) := StrV match_id),
                                   links_hyperlink := (links_hyperlink s2)((row_idx, c) :=
                                     Some (''http://www.dailygammon.com/bg/game/'' @ match_id @ ''/0/list#end''))\<rparr>
                           else s2))))"

definition step2_player :: "env \<Rightarrow> string \<Rightarrow> state \<Rightarrow> error + state" where
  "step2_player env player s =
     (case map_of (player_ids s) player of
        None \<Rightarrow> Inr s
      | Some pid \<Rightarrow>
          if pid = [] then Inr s
          else
            (let missing = filter (\<lambda>opp. opp \<noteq> player \<and> map_of (matches s) (player, opp) = None
                                         \<and> map_of (matches_by_hand s) (player, opp) = None) (players s)
             in if missing = [] then Inr s
                else case get_player_matches env pid s of
                       Inl e \<Rightarrow> Inl e
                     | Inr (player_matches, s1) \<Rightarrow> Inr (fold (step2_match player) player_matches s1)))"

definition step2 :: "env \<Rightarrow> state \<Rightarrow> error + state" where
  "step2 env s = for_each (step2_player env) (players s) s"

subsection \<open>Step 3: collect finished matches\<close>

text \<open>\<^verbatim>\<open>line.find("Wins")\<close> as an integer, \<open>-1\<close> when absent\<close>

definition py_find :: "string \<Rightarrow> string \<Rightarrow> int" where
  "py_find sub s = (case find_pos sub s of None \<Rightarrow> - 1 | Some n \<Rightarrow> int n)"

definition mid_threshold :: int where
  "mid_threshold = 24"

text \<open>The loop over the lines of the export text: the first line that decides.\<close>

fun winner_of :: "string \<Rightarrow> string \<Rightarrow> string list \<Rightarrow> string option" where
  "winner_of player opponent_name [] = None"
| "winner_of player opponent_name (line # text_lines) =
     (if contains ''and the match'' line \<and> contains ''Wins'' line
      then Some (if py_find ''Wins'' line < mid_threshold then player else opponent_name)
      else winner_of player opponent_name text_lines)"

definition step3_row :: "env \<Rightarrow> string \<Rightarrow> tr \<Rightarrow> state \<Rightarrow> state" where
  "step3_row env player row s =
     (if \<not> contains (season env) (tr_text row) then s
      else case find_link re_export (tr_links row) of
        None \<Rightarrow> s
      | Some (export_id, etext) \<Rightarrow>
         (case find_link re_game (tr_links row) of
            None \<Rightarrow> s
          | Some (mid_digits, mtext) \<Rightarrow>
             (case find_link re_user (tr_links row) of
                None \<Rightarrow> s
              | Some (opponent_id, otext) \<Rightarrow>
                 (let match_id = int (nat_of_digits mid_digits);
                      opponent_name = strip otext;
                      s1 = s\<lparr>requests := requests s @ [GetExport match_id]\<rparr>
                  in case export_page env match_id of
                       RequestException \<Rightarrow> s1
                     | Response ok text \<Rightarrow>
                        (case winner_of player opponent_name (splitlines text) of
                           None \<Rightarrow> s1
                         | Some winner \<Rightarrow>
                            if winner = [] then s1
                            else s1\<lparr>finished_by_id := AList.update match_id winner (finished_by_id s1)\<rparr>)))))"

definition step3_player :: "env \<Rightarrow> string \<Rightarrow> state \<Rightarrow> state" where
  "step3_player env player s =
     (case map_of (player_ids s) player of
        None \<Rightarrow> s
      | Some pid \<Rightarrow>
          if pid = [] then s
          else
            (let s1 = s\<lparr>requests := requests s @ [GetUser pid]\<rparr>
             in case user_page env pid of
                  RequestException \<Rightarrow> s1
                | Response ok text \<Rightarrow>
                    if \<not> ok then s1 else fold (step3_row env player) (soup env text) s1))"

definition step3 :: "env \<Rightarrow> state \<Rightarrow> state" where
  "step3 env s = fold (step3_player env) (players s) s"

subsection \<open>Phase 1: intermediate scores\<close>

definition col_start :: nat where
  "col_start = 2"

definition write_score_to_excel ::
  "string \<Rightarrow> string \<Rightarrow> int \<Rightarrow> int \<Rightarrow> bool \<Rightarrow> state \<Rightarrow> bool \<times> state" where
  "write_score_to_excel excel_player excel_opponent player_score opponent_score switched_flag s =
     (case index_of (players_in_matches s) excel_player of
        None \<Rightarrow> (False, s)
      | Some ri \<Rightarrow>
         (case index_of (players_in_matches s) excel_opponent of
            None \<Rightarrow> (False, s)
          | Some c_base \<Rightarrow>
             (let r_idx = ri + 4;
                  c_left = col_start + c_base * 2;
                  c_right = c_left + 1;
                  left_cell_val = ws_matches s (r_idx, c_left);
                  right_cell_val = ws_matches s (r_idx, c_right)
              in if left_cell_val = IntV 11 \<or> right_cell_val = IntV 11 then (False, s)
                 else (True, s\<lparr>ws_matches := (ws_matches s)((r_idx, c_left) := IntV player_score,
                                                           (r_idx, c_right) := IntV opponent_score)\<rparr>))))"

text \<open>
  The first lines of the body of the Phase 1 loop: the page from the cache, or fetched
  and put into the cache when the cache has none.
\<close>

definition phase1_html :: "env \<Rightarrow> int \<Rightarrow> state \<Rightarrow> string option \<times> state" where
  "phase1_html env match_id s =
     (let html = cache_get s match_id
      in if no_html html
         then (case fetch_list_html env match_id s of
                 (h, s') \<Rightarrow> (h, s'\<lparr>html_cache := AList.update match_id h (html_cache s')\<rparr>))
         else (html, s))"

definition phase1_match :: "env \<Rightarrow> int \<times> string \<times> string \<times> bool \<Rightarrow> state \<Rightarrow> state" where
  "phase1_match env entry s =
     (case entry of (match_id, excel_player, excel_opponent, switched_flag) \<Rightarrow>
        (case phase1_html env match_id s of
           (html, s1) \<Rightarrow>
             (case html of
                None \<Rightarrow> s1
              | Some h \<Rightarrow>
                 if h = [] then s1
                 else (case extract_latest_score env h (players_in_matches s1) of
                         None \<Rightarrow> s1
                       | Some (left_name, right_name, left_score, right_score) \<Rightarrow>
                          (case map_scores_for_excel excel_player excel_opponent left_name right_name
                                                     left_score right_score switched_flag of
                             None \<Rightarrow> s1
                           | Some (excel_player_score, excel_opponent_score) \<Rightarrow>
                               snd (write_score_to_excel excel_player excel_opponent
                                      excel_player_score excel_opponent_score switched_flag s1))))))"

definition phase1 :: "env \<Rightarrow> state \<Rightarrow> state" where
  "phase1 env s = fold (phase1_match env) (match_id_to_excel s) s"

subsection \<open>Phase 2: the winner's 11\<close>

definition phase2_match :: "int \<times> string \<Rightarrow> state \<Rightarrow> state" where
  "phase2_match entry s =
     (case entry of (match_id, winner_name) \<Rightarrow>
        (case map_of (match_id_to_excel s) match_id of
           None \<Rightarrow> s
         | Some (excel_player, excel_opponent, switched_flag) \<Rightarrow>
            (case index_of (players_in_matches s) excel_player of
               None \<Rightarrow> s
             | Some ri \<Rightarrow>
                (case index_of (players_in_matches s) excel_opponent of
                   None \<Rightarrow> s
                 | Some c_base \<Rightarrow>
                    (let r_idx = ri + 4;
                         c_left = col_start + c_base * 2;
                         c_right = c_left + 1;
                         winner_lower = lower (strip winner_name)
                     in if switched_flag then
                          (if winner_lower = lower excel_player
                           then s\<lparr>ws_matches := (ws_matches s)((r_idx, c_right) := IntV 11)\<rparr>
                           else if winner_lower = lower excel_opponent
                           then s\<lparr>ws_matches := (ws_matches s)((r_idx, c_left) := IntV 11)\<rparr>
                           else s)
                        else
                          (if winner_lower = lower excel_player
                           then s\<lparr>ws_matches := (ws_matches s)((r_idx, c_left) := IntV 11)\<rparr>
                           else if winner_lower = lower excel_opponent
                           then s\<lparr>ws_matches := (ws_matches s)((r_idx, c_right) := IntV 11)\<rparr>
                           else s))))))"

definition phase2 :: "state \<Rightarrow> state" where
  "phase2 s = fold phase2_match (finished_by_id s) s"

subsection \<open>Completion marker and the whole run\<close>

text \<open>
  The scan of the "Links" grid with its two \<^verbatim>\<open>break\<close>s: \<open>all_filled\<close> stays true exactly
  when no scanned cell is empty. Every scanned name has a column, so the branch for a name
  without one is never taken.
\<close>

definition all_filled :: "state \<Rightarrow> bool" where
  "all_filled s \<longleftrightarrow>
     list_all (\<lambda>(i, player_name).
        list_all (\<lambda>opp. player_name = opp \<or>
                    (case map_of (col_index_links s) opp of
                       None \<Rightarrow> False
                     | Some c \<Rightarrow> truthy (ws_links s (i, c))))
                 (col_opponents_links s))
       (enumerate 2 (row_players_links s))"

definition mark_complete :: "state \<Rightarrow> state" where
  "mark_complete s = (if all_filled s then s\<lparr>ws_control := StrV sentinel\<rparr> else s)"

text \<open>
  \<^verbatim>\<open>main()\<close> after the login: \<open>Inl\<close> is the exception that ends the run before the
  workbook is saved, \<open>Inr\<close> the state when the workbook is saved.
\<close>

definition run :: "env \<Rightarrow> state \<Rightarrow> error + state" where
  "run env s0 =
     (let s = write_flag_headers (start s0)
      in case (if skip_fetching s then Inr s
               else case step1 env s of Inl e \<Rightarrow> Inl e | Inr s1 \<Rightarrow> step2 env s1) of
           Inl e \<Rightarrow> Inl e
         | Inr s2 \<Rightarrow> Inr (mark_complete (phase2 (phase1 env (step3 env s2)))))"

subsection \<open>What a step leaves unchanged\<close>

text \<open>
  Relations between the state before and after a step, for the proofs. \<open>frame\<close>: the
  headers, the players sheet and the control cell are the same. \<open>quiet\<close>: moreover the
  "Links" grid and the "Matches" grid are the same. \<open>keeps_ids\<close>: every identifier cell
  that was non-empty has its value. \<open>grows\<close>: what discovery does. \<open>scoring\<close>: what the
  two phases do.
\<close>

definition frame :: "state \<Rightarrow> state \<Rightarrow> bool" where
  "frame s s' \<longleftrightarrow> players_sheet s' = players_sheet s \<and> links_colA s' = links_colA s
      \<and> links_row1 s' = links_row1 s \<and> matches_colA s' = matches_colA s
      \<and> ws_control s' = ws_control s"

definition quiet :: "state \<Rightarrow> state \<Rightarrow> bool" where
  "quiet s s' \<longleftrightarrow> frame s s' \<and> ws_links s' = ws_links s \<and> ws_matches s' = ws_matches s"

definition keeps_ids :: "state \<Rightarrow> state \<Rightarrow> bool" where
  "keeps_ids s s' \<longleftrightarrow> (\<forall>rc. truthy (ws_links s rc) \<longrightarrow> ws_links s' rc = ws_links s rc)"

definition grows :: "state \<Rightarrow> state \<Rightarrow> bool" where
  "grows s s' \<longleftrightarrow> frame s s' \<and> keeps_ids s s' \<and> ws_matches s' = ws_matches s"

definition scoring :: "state \<Rightarrow> state \<Rightarrow> bool" where
  "scoring s s' \<longleftrightarrow> frame s s' \<and> ws_links s' = ws_links s
      \<and> match_id_to_excel s' = match_id_to_excel s \<and> finished_by_id s' = finished_by_id s"


subsection \<open>Concrete workbooks and remote sites\<close>

text \<open>An empty workbook, and a remote site given by its pages: a page that is not listed is
  answered with a response that is not a success.\<close>

definition empty_book :: state where
  "empty_book =
     \<lparr>players_sheet = [], links_colA = [], links_row1 = [], matches_colA = [],
      ws_links = (\<lambda>rc. Empty), links_hyperlink = (\<lambda>rc. None), ws_flag = (\<lambda>rc. Empty),
      ws_control = Empty, ws_matches = (\<lambda>rc. Empty),
      matches = [], matches_by_hand = [], match_id_to_excel = [], html_cache = [],
      finished_by_id = [], requests = []\<rparr>"

definition site ::
  "(string \<times> tr list) list \<Rightarrow> (int \<times> response) list \<Rightarrow> (string \<times> response) list
     \<Rightarrow> (int \<times> response) list \<Rightarrow> env" where
  "site parsed match_pages user_pages export_pages =
     \<lparr>soup = (\<lambda>html. case map_of parsed html of Some rows \<Rightarrow> rows | None \<Rightarrow> []),
      match_page = (\<lambda>m. case map_of match_pages m of Some r \<Rightarrow> r | None \<Rightarrow> Response False []),
      user_page = (\<lambda>p. case map_of user_pages p of Some r \<Rightarrow> r | None \<Rightarrow> Response False []),
      export_page = (\<lambda>m. case map_of export_pages m of Some r \<Rightarrow> r | None \<Rightarrow> Response False []),
      season = ''34th-season-4d''\<rparr>"

text \<open>The row of a match page that shows the score, and the row of a player's page for one
  match of the season, without and with the link to the export.\<close>

definition score_row :: "string \<Rightarrow> string \<Rightarrow> tr" where
  "score_row left right =
     \<lparr>tr_text = ''12 '' @ left @ '' '' @ right, tr_tds = [''12'', left, right], tr_links = []\<rparr>"

definition match_row :: "string \<Rightarrow> string \<Rightarrow> string \<Rightarrow> tr" where
  "match_row opponent_name opponent_id match_id =
     \<lparr>tr_text = ''34th-season-4d '' @ opponent_name @ '' Review'', tr_tds = [],
      tr_links = [(''/bg/user/'' @ opponent_id, opponent_name),
                  (''/bg/game/'' @ match_id @ ''/0/list#end'', ''Review'')]\<rparr>"

definition finished_row :: "string \<Rightarrow> string \<Rightarrow> string \<Rightarrow> tr" where
  "finished_row opponent_name opponent_id match_id =
     \<lparr>tr_text = ''34th-season-4d '' @ opponent_name @ '' Review Export'', tr_tds = [],
      tr_links = [(''/bg/user/'' @ opponent_id, opponent_name),
                  (''/bg/game/'' @ match_id @ ''/0/list#end'', ''Review''),
                  (''/bg/export/'' @ match_id, ''Export'')]\<rparr>"

text \<open>Export texts whose deciding line has "Wins" in the left column (position 6) and in the
  right column (position 32).\<close>

definition export_left :: string where
  "export_left = '' Alice : 11  Bob : 7'' @ [CHR 0x0A] @ ''      Wins 1 point and the match''"

definition export_right :: string where
  "export_right = '' Bob : 7  Alice : 11'' @ [CHR 0x0A] @ replicate 32 CHR '' '' @ ''Wins 1 point and the match''"

definition alice_url :: string where
  "alice_url = ''http://www.dailygammon.com/bg/user/1''"

text \<open>C1: the marker is set, both identifier cells hold match 123, the match is decided.\<close>

definition book_marked :: state where
  "book_marked = empty_book
     \<lparr>players_sheet := [(StrV ''Alice'', Some alice_url), (StrV ''Bob'', None)],
      links_colA := [StrV ''Alice'', StrV ''Bob''], links_row1 := [StrV ''Alice'', StrV ''Bob''],
      matches_colA := [StrV ''Alice'', StrV ''Bob''],
      ws_links := (\<lambda>rc. Empty)((2, 3) := IntV 123, (3, 2) := IntV 123),
      ws_control := StrV sentinel\<rparr>"

definition site_decided :: env where
  "site_decided =
     site [(''match123'', [score_row ''Alice : 11'' ''Bob : 7'']),
           (''user1'', [finished_row ''Bob'' ''2'' ''123''])]
          [(123, Response True ''match123'')]
          [(''1'', Response True ''user1'')]
          [(123, Response True export_left)]"

text \<open>C2: the pairing (Alice, Bob) is finished, 11 to 7; the export has "Wins" on the right.\<close>

definition book_finished :: state where
  "book_finished = empty_book
     \<lparr>players_sheet := [(StrV ''Alice'', Some alice_url), (StrV ''Bob'', None)],
      links_colA := [StrV ''Alice'', StrV ''Bob''], links_row1 := [StrV ''Alice'', StrV ''Bob''],
      matches_colA := [StrV ''Alice'', StrV ''Bob''],
      ws_links := (\<lambda>rc. Empty)((2, 3) := IntV 123),
      ws_matches := (\<lambda>rc. Empty)((4, 4) := IntV 11, (4, 5) := IntV 7)\<rparr>"

definition site_wins_right :: env where
  "site_wins_right =
     site [(''match123'', [score_row ''Alice : 11'' ''Bob : 7'']),
           (''user1'', [finished_row ''Bob'' ''2'' ''123''])]
          [(123, Response True ''match123'')]
          [(''1'', Response True ''user1'')]
          [(123, Response True export_right)]"

text \<open>C2, second input: Alice and Bob both have a page; the remote site lists Alice on the
  left, she has won 11 to 7 and "Wins" stands in the left column. Bob's row of the score
  grid holds the finished result, 7 to 11, of an earlier run.\<close>

definition bob_url :: string where
  "bob_url = ''http://www.dailygammon.com/bg/user/2''"

definition book_two_pages :: state where
  "book_two_pages = empty_book
     \<lparr>players_sheet := [(StrV ''Alice'', Some alice_url), (StrV ''Bob'', Some bob_url),
                        (StrV ''Carol'', None)],
      links_colA := [StrV ''Alice'', StrV ''Bob'', StrV ''Carol''],
      links_row1 := [StrV ''Alice'', StrV ''Bob'', StrV ''Carol''],
      matches_colA := [StrV ''Alice'', StrV ''Bob'', StrV ''Carol''],
      ws_links := (\<lambda>rc. Empty)((2, 3) := IntV 123),
      ws_matches := (\<lambda>rc. Empty)((5, 2) := IntV 7, (5, 3) := IntV 11)\<rparr>"

definition site_two_pages :: env where
  "site_two_pages =
     site [(''match123'', [score_row ''Alice : 11'' ''Bob : 7'']),
           (''user1'', [finished_row ''Bob'' ''2'' ''123'']),
           (''user2'', [finished_row ''Alice'' ''1'' ''123''])]
          [(123, Response True ''match123'')]
          [(''1'', Response True ''user1''), (''2'', Response True ''user2'')]
          [(123, Response True export_left)]"

text \<open>C3: the grid calls the opponent "Bob S.", the remote site calls him "Bob"; the match
  page cannot be had, the export decides for the opponent.\<close>

definition book_variant :: state where
  "book_variant = empty_book
     \<lparr>players_sheet := [(StrV ''Alice'', Some alice_url), (StrV ''Bob S.'', None)],
      links_colA := [StrV ''Alice'', StrV ''Bob S.''], links_row1 := [StrV ''Alice'', StrV ''Bob S.''],
      matches_colA := [StrV ''Alice'', StrV ''Bob S.''],
      ws_links := (\<lambda>rc. Empty)((2, 3) := IntV 123)\<rparr>"

definition site_no_match_page :: env where
  "site_no_match_page =
     site [(''user1'', [finished_row ''Bob'' ''2'' ''123''])]
          []
          [(''1'', Response True ''user1'')]
          [(123, Response True export_right)]"

text \<open>C3, witness: a state of Phase 2 with the pairing (Alice, Bob) of match 123, 5 to 7.\<close>

definition book_phase2 :: state where
  "book_phase2 = empty_book
     \<lparr>matches_colA := [StrV ''Alice'', StrV ''Bob''],
      ws_matches := (\<lambda>rc. Empty)((4, 4) := IntV 5, (4, 5) := IntV 7),
      match_id_to_excel := [(123, ''Alice'', ''Bob'', False)]\<rparr>"

text \<open>C4: match 123 stands in both oriented cells; no player has an external identifier.\<close>

definition book_both_cells :: state where
  "book_both_cells = empty_book
     \<lparr>players_sheet := [(StrV ''Alice'', None), (StrV ''Bob'', None)],
      links_colA := [StrV ''Alice'', StrV ''Bob''], links_row1 := [StrV ''Alice'', StrV ''Bob''],
      matches_colA := [StrV ''Alice'', StrV ''Bob''],
      ws_links := (\<lambda>rc. Empty)((2, 3) := IntV 123, (3, 2) := IntV 123)\<rparr>"

definition site_running :: env where
  "site_running =
     site [(''match123'', [score_row ''Alice : 5'' ''Bob : 3'']),
           (''user1'', [match_row ''Bob'' ''2'' ''123''])]
          [(123, Response True ''match123'')]
          [(''1'', Response True ''user1'')]
          []"

text \<open>C5: nothing is identified yet, and Alice's page answers with an error status.\<close>

definition book_new :: state where
  "book_new = empty_book
     \<lparr>players_sheet := [(StrV ''Alice'', Some alice_url), (StrV ''Bob'', None)],
      links_colA := [StrV ''Alice'', StrV ''Bob''], links_row1 := [StrV ''Alice'', StrV ''Bob''],
      matches_colA := [StrV ''Alice'', StrV ''Bob'']\<rparr>"

definition site_user_page_down :: env where
  "site_user_page_down =
     site [(''match123'', [score_row ''Alice : 5'' ''Bob : 3''])]
          [(123, Response True ''match123'')]
          [(''1'', Response False ''Internal Server Error'')]
          []"

text \<open>C7: a workbook marked complete when it held Alice and Bob only; Carol has been added
  since. Alice's page lists her match 300 against Carol.\<close>

definition book_carol_added :: state where
  "book_carol_added = empty_book
     \<lparr>players_sheet := [(StrV ''Alice'', Some alice_url), (StrV ''Bob'', None), (StrV ''Carol'', None)],
      links_colA := [StrV ''Alice'', StrV ''Bob'', StrV ''Carol''],
      links_row1 := [StrV ''Alice'', StrV ''Bob'', StrV ''Carol''],
      matches_colA := [StrV ''Alice'', StrV ''Bob'', StrV ''Carol''],
      ws_links := (\<lambda>rc. Empty)((2, 3) := IntV 123, (3, 2) := IntV 123),
      ws_control := StrV sentinel\<rparr>"

definition site_carol_listed :: env where
  "site_carol_listed =
     site [(''match123'', [score_row ''Alice : 5'' ''Bob : 3'']),
           (''user1'', [match_row ''Bob'' ''2'' ''123'', match_row ''Carol'' ''3'' ''300''])]
          [(123, Response True ''match123'')]
          [(''1'', Response True ''user1'')]
          []"

text \<open>C8: a moderator has put match 123 into the cell (Bob, Alice) by hand; the remote site
  lists Alice on the left. Carol's cells stay empty, so the grid is never complete.\<close>

definition book_by_hand :: state where
  "book_by_hand = empty_book
     \<lparr>players_sheet := [(StrV ''Alice'', Some alice_url), (StrV ''Bob'', None), (StrV ''Carol'', None)],
      links_colA := [StrV ''Alice'', StrV ''Bob'', StrV ''Carol''],
      links_row1 := [StrV ''Alice'', StrV ''Bob'', StrV ''Carol''],
      matches_colA := [StrV ''Alice'', StrV ''Bob'', StrV ''Carol''],
      ws_links := (\<lambda>rc. Empty)((3, 2) := IntV 123)\<rparr>"

text \<open>C9: the cell (Alice, Bob) holds 100; Alice's page reports match 200 against Bob and
  match 300 against Carol.\<close>

definition book_populated :: state where
  "book_populated = empty_book
     \<lparr>players_sheet := [(StrV ''Alice'', Some alice_url), (StrV ''Bob'', None), (StrV ''Carol'', None)],
      links_colA := [StrV ''Alice'', StrV ''Bob'', StrV ''Carol''],
      links_row1 := [StrV ''Alice'', StrV ''Bob'', StrV ''Carol''],
      matches_colA := [StrV ''Alice'', StrV ''Bob'', StrV ''Carol''],
      ws_links := (\<lambda>rc. Empty)((2, 3) := IntV 100)\<rparr>"

definition site_other_id :: env where
  "site_other_id =
     site [(''user1'', [match_row ''Bob'' ''2'' ''200'', match_row ''Carol'' ''3'' ''300''])]
          []
          [(''1'', Response True ''user1'')]
          []"

text \<open>C9, counterexample: the same workbook with the number 0 in the cell (Alice, Bob).\<close>

definition book_zero :: state where
  "book_zero = book_populated\<lparr>ws_links := (\<lambda>rc. Empty)((2, 3) := IntV 0)\<rparr>"

text \<open>C10: a state of Phase 1 with the pairing (Alice, Bob) of match 123, 9 to 7 in the grid,
  whose page now shows 11 to 7.\<close>

definition book_phase1 :: state where
  "book_phase1 = empty_book
     \<lparr>matches_colA := [StrV ''Alice'', StrV ''Bob''],
      ws_matches := (\<lambda>rc. Empty)((4, 4) := IntV 9, (4, 5) := IntV 7),
      match_id_to_excel := [(123, ''Alice'', ''Bob'', False)]\<rparr>"

text \<open>C6: the page of match 123 shows Carol and Dave; the grid pairs Eve with Frank.\<close>

definition book_strangers :: state where
  "book_strangers = empty_book
     \<lparr>matches_colA := [StrV ''Eve'', StrV ''Frank'', StrV ''Carol''],
      ws_matches := (\<lambda>rc. Empty)((4, 4) := IntV 2, (4, 5) := IntV 1),
      match_id_to_excel := [(123, ''Eve'', ''Frank'', False)]\<rparr>"

definition site_strangers :: env where
  "site_strangers =
     site [(''match123'', [score_row ''Carol : 3'' ''Dave : 5''])]
          [(123, Response True ''match123'')]
          []
          []"


subsection \<open>Invariants of the steps\<close>

lemma frame_refl: "frame s s"
  by (simp add: frame_def)

lemma frame_trans: "frame s t \<Longrightarrow> frame t u \<Longrightarrow> frame s u"
  by (simp add: frame_def)

lemma fold_invariant:
  assumes "\<And>x s. x \<in> set xs \<Longrightarrow> P s \<Longrightarrow> P (f x s)" and "P s"
  shows "P (fold f xs s)"
  using assms by (induction xs arbitrary: s) auto

lemma for_each_invariant:
  assumes "\<And>x s s'. x \<in> set xs \<Longrightarrow> P s \<Longrightarrow> body x s = Inr s' \<Longrightarrow> P s'"
    and "P s" and "for_each body xs s = Inr s'"
  shows "P s'"
  using assms
proof (induction xs arbitrary: s)
  case Nil
  then show ?case by simp
next
  case (Cons x xs)
  from Cons.prems(3) obtain t where t: "body x s = Inr t" and r: "for_each body xs t = Inr s'"
    by (auto split: sum.splits)
  have "P t" using Cons.prems(1)[OF _ Cons.prems(2) t] by simp
  then show ?case using Cons.IH[OF _ _ r] Cons.prems(1) by auto
qed

lemma frame_headers:
  "frame s s' \<Longrightarrow> players s' = players s \<and> player_ids s' = player_ids s
     \<and> row_players_links s' = row_players_links s \<and> col_opponents_links s' = col_opponents_links s
     \<and> col_index_links s' = col_index_links s \<and> players_in_matches s' = players_in_matches s"
  by (simp add: frame_def players_def player_ids_def row_players_links_def col_opponents_links_def
      col_index_links_def players_in_matches_def)

lemma quiet_refl: "quiet s s"
  by (simp add: quiet_def frame_refl)

lemma quiet_trans: "quiet s t \<Longrightarrow> quiet t u \<Longrightarrow> quiet s u"
  by (auto simp: quiet_def intro: frame_trans)

lemma keeps_ids_refl: "keeps_ids s s"
  by (simp add: keeps_ids_def)

lemma keeps_ids_trans: "keeps_ids s t \<Longrightarrow> keeps_ids t u \<Longrightarrow> keeps_ids s u"
  by (simp add: keeps_ids_def)

lemma quiet_start: "quiet s (start s)"
  by (simp add: quiet_def frame_def start_def)

lemma quiet_write_flag_headers: "quiet s (write_flag_headers s)"
  by (simp add: quiet_def frame_def write_flag_headers_def)

lemma quiet_step1_cell: "step1_cell env i p opp s = Inr s' \<Longrightarrow> quiet s s'"
  by (auto simp: step1_cell_def quiet_def frame_def Let_def register_normal_def register_switched_def
      fetch_list_html_def split: if_splits option.splits prod.splits)

lemma quiet_step1:
  assumes "step1 env s = Inr s'"
  shows "quiet s s'"
proof -
  have row: "quiet s t'"
    if "quiet s t" and "for_each (step1_cell env i p) cols t = Inr t'" for i p cols t t'
    using that(2)
    by (rule for_each_invariant[where P = "quiet s", rotated 2])
       (auto intro: quiet_trans quiet_step1_cell that(1))
  show ?thesis
    using assms unfolding step1_def
    by (rule for_each_invariant[where P = "quiet s", rotated 2])
       (auto intro: row quiet_refl)
qed

lemma step2_match_frame: "frame s (step2_match player pm s)"
  by (auto simp: step2_match_def frame_def Let_def split: if_splits option.splits prod.splits)

lemma step2_match_keeps_ids: "keeps_ids s (step2_match player pm s)"
  by (auto simp: step2_match_def keeps_ids_def Let_def split: if_splits option.splits prod.splits)

lemma step2_match_scores: "ws_matches (step2_match player pm s) = ws_matches s"
  by (auto simp: step2_match_def Let_def split: if_splits option.splits prod.splits)

lemma grows_refl: "grows s s"
  by (simp add: grows_def frame_refl keeps_ids_refl)

lemma grows_trans: "grows s t \<Longrightarrow> grows t u \<Longrightarrow> grows s u"
  by (auto simp: grows_def intro: frame_trans keeps_ids_trans)

lemma quiet_grows: "quiet s s' \<Longrightarrow> grows s s'"
  by (simp add: quiet_def grows_def keeps_ids_def)

lemma grows_step2_match: "grows s (step2_match player pm s)"
  by (simp add: grows_def step2_match_frame step2_match_keeps_ids step2_match_scores)

lemma grows_step2_player:
  assumes "step2_player env player s = Inr s'"
  shows "grows s s'"
proof -
  have loop: "grows s (fold (step2_match player) pms t)" if "grows s t" for pms t
    by (rule fold_invariant[where P = "grows s"]) (auto intro: grows_trans grows_step2_match that)
  have req: "grows s t" if "get_player_matches env pid s = Inr (pms, t)" for pid pms t
    using that
    by (auto simp: get_player_matches_def grows_def frame_def keeps_ids_def
        split: response.splits if_splits)
  show ?thesis
    using assms
    by (auto simp: step2_player_def Let_def grows_refl split: option.splits if_splits sum.splits
        intro: loop req)
qed

lemma grows_step2: "step2 env s = Inr s' \<Longrightarrow> grows s s'"
  unfolding step2_def
  by (rule for_each_invariant[where P = "grows s", rotated 2])
     (auto intro: grows_trans grows_step2_player grows_refl)


lemma quiet_step3_row: "quiet s (step3_row env player row s)"
  by (auto simp: step3_row_def quiet_def frame_def Let_def
      split: if_splits option.splits prod.splits response.splits)

lemma step3_row_mapping: "match_id_to_excel (step3_row env player row s) = match_id_to_excel s"
  by (auto simp: step3_row_def Let_def split: if_splits option.splits prod.splits response.splits)

lemma quiet_step3_player: "quiet s (step3_player env player s)"
proof -
  have loop: "quiet s (fold (step3_row env player) rows t)" if "quiet s t" for rows t
    by (rule fold_invariant[where P = "quiet s"]) (auto intro: quiet_trans quiet_step3_row that)
  have "quiet s (s\<lparr>requests := r\<rparr>)" for r
    by (simp add: quiet_def frame_def)
  then show ?thesis
    by (auto simp: step3_player_def Let_def quiet_refl split: option.splits response.splits intro: loop)
qed

lemma step3_player_mapping: "match_id_to_excel (step3_player env player s) = match_id_to_excel s"
proof -
  have loop: "match_id_to_excel (fold (step3_row env player) rows t) = match_id_to_excel s"
    if "match_id_to_excel t = match_id_to_excel s" for rows t
    by (rule fold_invariant[where P = "\<lambda>u. match_id_to_excel u = match_id_to_excel s"])
       (auto simp: step3_row_mapping that)
  show ?thesis
    by (auto simp: step3_player_def Let_def split: option.splits response.splits intro: loop)
qed

lemma quiet_step3: "quiet s (step3 env s)"
  unfolding step3_def
  by (rule fold_invariant[where P = "quiet s"]) (auto intro: quiet_trans quiet_step3_player quiet_refl)

lemma step3_mapping: "match_id_to_excel (step3 env s) = match_id_to_excel s"
  unfolding step3_def
  by (rule fold_invariant[where P = "\<lambda>u. match_id_to_excel u = match_id_to_excel s"])
     (auto simp: step3_player_mapping)

lemma scoring_refl: "scoring s s"
  by (simp add: scoring_def frame_refl)

lemma scoring_trans: "scoring s t \<Longrightarrow> scoring t u \<Longrightarrow> scoring s u"
  by (auto simp: scoring_def intro: frame_trans)

lemma scoring_phase1_html: "phase1_html env m s = (h, s') \<Longrightarrow> scoring s s' \<and> ws_matches s' = ws_matches s"
  by (auto simp: phase1_html_def scoring_def frame_def Let_def fetch_list_html_def split: if_splits)

lemma scoring_write_score: "scoring s (snd (write_score_to_excel p opp a b sw s))"
  by (auto simp: write_score_to_excel_def scoring_def frame_def Let_def split: option.splits)

lemma scoring_phase1_match: "scoring s (phase1_match env entry s)"
proof -
  obtain m p opp sw where e: "entry = (m, p, opp, sw)" by (cases entry) auto
  obtain h s1 where h: "phase1_html env m s = (h, s1)" by (cases "phase1_html env m s")
  have s1: "scoring s s1" using scoring_phase1_html[OF h] by simp
  show ?thesis
    using s1 by (auto simp: phase1_match_def e h split: option.splits
        intro: scoring_trans[OF s1 scoring_write_score])
qed

lemma scoring_phase1: "scoring s (phase1 env s)"
  unfolding phase1_def
  by (rule fold_invariant[where P = "scoring s"])
     (auto intro: scoring_trans scoring_phase1_match scoring_refl)

lemma scoring_phase2_match: "scoring s (phase2_match entry s)"
  by (auto simp: phase2_match_def scoring_def frame_def Let_def split: option.splits prod.splits)

lemma scoring_phase2: "scoring s (phase2 s)"
  unfolding phase2_def
  by (rule fold_invariant[where P = "scoring s"])
     (auto intro: scoring_trans scoring_phase2_match scoring_refl)


lemma mark_complete_frame:
  "players_sheet (mark_complete s) = players_sheet s \<and> links_colA (mark_complete s) = links_colA s
   \<and> links_row1 (mark_complete s) = links_row1 s \<and> matches_colA (mark_complete s) = matches_colA s
   \<and> ws_links (mark_complete s) = ws_links s \<and> ws_matches (mark_complete s) = ws_matches s
   \<and> match_id_to_excel (mark_complete s) = match_id_to_excel s
   \<and> finished_by_id (mark_complete s) = finished_by_id s"
  by (simp add: mark_complete_def)

lemma mark_complete_control:
  "ws_control (mark_complete s) = (if all_filled s then StrV sentinel else ws_control s)"
  by (simp add: mark_complete_def)

lemma all_filled_mark_complete: "all_filled (mark_complete s) = all_filled s"
  by (simp add: mark_complete_def all_filled_def row_players_links_def col_opponents_links_def
      col_index_links_def cong: option.case_cong)

lemma run_discovery:
  assumes "run env s = Inr s'"
  obtains s2 where "grows s s2"
    and "s' = mark_complete (phase2 (phase1 env (step3 env s2)))"
    and "skip_fetching s \<Longrightarrow> s2 = write_flag_headers (start s)"
proof -
  let ?s0 = "write_flag_headers (start s)"
  have q0: "quiet s ?s0"
    by (rule quiet_trans[OF quiet_start quiet_write_flag_headers])
  have sk: "skip_fetching ?s0 = skip_fetching s"
    using q0 by (simp add: quiet_def frame_def skip_fetching_def)
  show ?thesis
  proof (cases "skip_fetching s")
    case True
    with assms sk have "s' = mark_complete (phase2 (phase1 env (step3 env ?s0)))"
      by (simp add: run_def Let_def)
    then show ?thesis using that[of ?s0] quiet_grows[OF q0] by simp
  next
    case False
    with assms sk obtain s1 s2 where s1: "step1 env ?s0 = Inr s1" and s2: "step2 env s1 = Inr s2"
      and e: "s' = mark_complete (phase2 (phase1 env (step3 env s2)))"
      by (auto simp: run_def Let_def split: sum.splits)
    have "grows s s2"
      by (rule grows_trans[OF quiet_grows[OF q0]
            grows_trans[OF quiet_grows[OF quiet_step1[OF s1]] grows_step2[OF s2]]])
    then show ?thesis using that[of s2] e False by simp
  qed
qed

lemma run_scoring:
  "frame s2 (phase2 (phase1 env (step3 env s2)))
   \<and> keeps_ids s2 (phase2 (phase1 env (step3 env s2)))"
proof -
  have a: "quiet s2 (step3 env s2)" by (rule quiet_step3)
  have b: "scoring (step3 env s2) (phase2 (phase1 env (step3 env s2)))"
    by (rule scoring_trans[OF scoring_phase1 scoring_phase2])
  from a b show ?thesis
    by (auto simp: quiet_def scoring_def keeps_ids_def intro: frame_trans)
qed

lemma ball_enumerate:
  "(\<forall>x\<in>set (enumerate n xs). P (fst x) (snd x)) \<longleftrightarrow> (\<forall>i<length xs. P (i + n) (xs ! i))"
proof
  assume l: "\<forall>x\<in>set (enumerate n xs). P (fst x) (snd x)"
  show "\<forall>i<length xs. P (i + n) (xs ! i)"
  proof (intro allI impI)
    fix i assume "i < length xs"
    then have "(i + n, xs ! i) \<in> set (enumerate n xs)"
      by (simp add: in_set_enumerate_eq)
    with l show "P (i + n) (xs ! i)" by fastforce
  qed
next
  assume r: "\<forall>i<length xs. P (i + n) (xs ! i)"
  show "\<forall>x\<in>set (enumerate n xs). P (fst x) (snd x)"
  proof
    fix x assume "x \<in> set (enumerate n xs)"
    then have "fst x - n + n = fst x" "fst x - n < length xs" "xs ! (fst x - n) = snd x"
      by (auto simp: in_set_enumerate_eq)
    with r[rule_format, of "fst x - n"] show "P (fst x) (snd x)" by metis
  qed
qed

lemma all_filled_iff:
  "all_filled s \<longleftrightarrow>
     (\<forall>i<length (row_players_links s). \<forall>opp\<in>set (col_opponents_links s).
        row_players_links s ! i \<noteq> opp \<longrightarrow>
        (\<exists>c. map_of (col_index_links s) opp = Some c \<and> truthy (ws_links s (i + 2, c))))"
proof -
  have "all_filled s \<longleftrightarrow>
      (\<forall>x\<in>set (enumerate 2 (row_players_links s)). \<forall>opp\<in>set (col_opponents_links s).
         snd x \<noteq> opp \<longrightarrow>
         (\<exists>c. map_of (col_index_links s) opp = Some c \<and> truthy (ws_links s (fst x, c))))"
  proof -
    have inner: "(p = opp \<or> (case map_of m opp of None \<Rightarrow> False | Some c \<Rightarrow> truthy (f (r, c))))
        \<longleftrightarrow> (p \<noteq> opp \<longrightarrow> (\<exists>c. map_of m opp = Some c \<and> truthy (f (r, c))))"
      for p opp :: string and m :: "(string \<times> nat) list" and f :: "nat \<times> nat \<Rightarrow> cell" and r
      by (cases "map_of m opp") auto
    show ?thesis
      unfolding all_filled_def list_all_iff case_prod_beta inner ..
  qed
  also have "\<dots> \<longleftrightarrow> (\<forall>i<length (row_players_links s). \<forall>opp\<in>set (col_opponents_links s).
        row_players_links s ! i \<noteq> opp \<longrightarrow>
        (\<exists>c. map_of (col_index_links s) opp = Some c \<and> truthy (ws_links s (i + 2, c))))"
    by (rule ball_enumerate)
  finally show ?thesis .
qed

lemma phase1_no_mapping: "match_id_to_excel s = [] \<Longrightarrow> phase1 env s = s"
  by (simp add: phase1_def)

lemma phase2_no_mapping:
  assumes "match_id_to_excel s = []"
  shows "phase2 s = s"
proof -
  have "fold phase2_match fs s = s" for fs
    by (induction fs) (auto simp: phase2_match_def assms)
  then show ?thesis by (simp add: phase2_def)
qed

lemma map_scores_swap_or_keep:
  assumes "map_scores_for_excel p opp left_name right_name ls rs sw = Some (a, b)"
  shows "(a, b) = (ls, rs) \<or> (a, b) = (rs, ls)"
proof -
  have g: "(if c1 then Some (rs, ls)
            else if c2 then Some (ls, rs)
            else if c3 then Some (rs, ls)
            else if c4 then (if c5 then Some (ls, rs) else if c6 then Some (rs, ls) else None)
            else None) = Some (a, b) \<Longrightarrow> (a, b) = (ls, rs) \<or> (a, b) = (rs, ls)"
    for c1 c2 c3 c4 c5 c6 :: bool
    by (auto split: if_splits)
  show ?thesis
    by (rule g) (use assms in \<open>unfold map_scores_for_excel_def Let_def\<close>)
qed

lemma write_score_to_excel_finished:
  assumes "index_of (players_in_matches s) p = Some i"
    and "index_of (players_in_matches s) opp = Some j"
    and "ws_matches s (i + 4, 2 + 2 * j) = IntV 11 \<or> ws_matches s (i + 4, 3 + 2 * j) = IntV 11"
  shows "write_score_to_excel p opp a b sw s = (False, s)"
proof -
  have c: "col_start + j * 2 = 2 + 2 * j" "Suc (col_start + j * 2) = 3 + 2 * j"
    by (simp_all add: col_start_def)
  show ?thesis
    using assms(3)
    by (auto simp add: write_score_to_excel_def assms(1,2) Let_def c
        simp del: add_2_eq_Suc add_2_eq_Suc')
qed

lemma phase1_match_finished:
  assumes "index_of (players_in_matches s) p = Some i"
    and "index_of (players_in_matches s) opp = Some j"
    and "ws_matches s (i + 4, 2 + 2 * j) = IntV 11 \<or> ws_matches s (i + 4, 3 + 2 * j) = IntV 11"
  shows "ws_matches (phase1_match env (match_id, p, opp, sw) s) = ws_matches s"
proof -
  obtain h s1 where ph: "phase1_html env match_id s = (h, s1)"
    by (cases "phase1_html env match_id s")
  from scoring_phase1_html[OF ph] have f: "frame s s1" and w: "ws_matches s1 = ws_matches s"
    by (simp_all add: scoring_def)
  have pim: "players_in_matches s1 = players_in_matches s"
    using frame_headers[OF f] by simp
  have "write_score_to_excel p opp a b sw s1 = (False, s1)" for a b
    by (rule write_score_to_excel_finished[where i = i and j = j])
       (use assms in \<open>simp_all add: pim w\<close>)
  then show ?thesis
    by (simp add: phase1_match_def ph w split: option.splits)
qed

text \<open>
  The control cell after a run, as the code leaves it: the sentinel is there when it was
  there before or when the scan has found every scanned cell true in Python's sense.
\<close>

lemma control_after_run:
  assumes "run env s = Inr s'"
  shows "ws_control s' = StrV sentinel \<longleftrightarrow>
           ws_control s = StrV sentinel \<or>
           (\<forall>i<length (row_players_links s'). \<forall>opp\<in>set (col_opponents_links s').
              row_players_links s' ! i \<noteq> opp \<longrightarrow>
              (\<exists>c. map_of (col_index_links s') opp = Some c \<and> truthy (ws_links s' (i + 2, c))))"
proof -
  from assms obtain s2 where g: "grows s s2"
    and e: "s' = mark_complete (phase2 (phase1 env (step3 env s2)))"
    by (rule run_discovery)
  let ?s5 = "phase2 (phase1 env (step3 env s2))"
  have "frame s ?s5"
    using g run_scoring[of s2 env] by (auto simp: grows_def intro: frame_trans)
  then have c: "ws_control ?s5 = ws_control s" by (simp add: frame_def)
  have af: "all_filled s' = all_filled ?s5"
    by (simp add: e all_filled_mark_complete)
  have "ws_control s' = StrV sentinel \<longleftrightarrow> ws_control s = StrV sentinel \<or> all_filled s'"
    unfolding af by (simp add: e mark_complete_control c)
  then show ?thesis by (simp only: all_filled_iff)
qed

subsection \<open>The claims\<close>

text \<open>
  C1. Claim: when the completion marker is present at the start of a run, the run skips
  discovery but still writes current scores and terminal values for every pairing whose
  identifier cell is populated. The code does not: with the marker present Steps 1 and 2 are
  skipped, they are the only places that fill \<open>match_id_to_excel\<close>, and Phases 1 and 2 go
  through that dictionary only. So every run that starts with the marker ends normally with
  an empty mapping and with the score grid exactly as it was.
\<close>

theorem marked_run_writes_no_score:
  assumes "ws_control s = StrV sentinel"
  shows "\<exists>s'. run env s = Inr s' \<and> match_id_to_excel s' = [] \<and> ws_matches s' = ws_matches s"
proof -
  let ?s0 = "write_flag_headers (start s)"
  have q0: "quiet s ?s0"
    by (rule quiet_trans[OF quiet_start quiet_write_flag_headers])
  have sk: "skip_fetching ?s0"
    using q0 assms by (simp add: quiet_def frame_def skip_fetching_def)
  have m0: "match_id_to_excel ?s0 = []"
    by (simp add: write_flag_headers_def start_def)
  let ?s3 = "step3 env ?s0"
  have m3: "match_id_to_excel ?s3 = []" by (simp add: step3_mapping m0)
  have r: "run env s = Inr (mark_complete ?s3)"
    using sk by (simp add: run_def Let_def phase1_no_mapping[OF m3] phase2_no_mapping[OF m3])
  have "ws_matches ?s3 = ws_matches s"
    using q0 quiet_step3[of ?s0 env] by (simp add: quiet_def)
  then show ?thesis using r m3 by (simp add: mark_complete_frame)
qed

text \<open>
  The failing input: both identifier cells of Alice and Bob hold match 123, the match page
  shows 11 to 7, Alice's page links the export and the export decides the match. The run
  learns the winner and writes nothing.
\<close>

theorem marked_run_writes_no_score_witness:
  "ws_control book_marked = StrV sentinel \<and> ws_links book_marked (2, 3) = IntV 123 \<and>
   (\<exists>s'. run site_decided book_marked = Inr s' \<and> finished_by_id s' = [(123, ''Alice'')] \<and>
         match_id_to_excel s' = [] \<and> ws_matches s' = ws_matches book_marked \<and>
         ws_matches s' (4, 4) = Empty \<and> ws_matches s' (4, 5) = Empty)"
proof -
  have m: "ws_control book_marked = StrV sentinel"
    by (simp add: book_marked_def)
  have l: "ws_links book_marked (2, 3) = IntV 123"
    by (simp add: book_marked_def)
  from marked_run_writes_no_score[OF m, of site_decided]
  obtain s' where r: "run site_decided book_marked = Inr s'" and e: "match_id_to_excel s' = []"
    and w: "ws_matches s' = ws_matches book_marked" by blast
  have "case run site_decided book_marked of Inl e \<Rightarrow> False
        | Inr t \<Rightarrow> finished_by_id t = [(123, ''Alice'')]"
    by code_simp
  then have f: "finished_by_id s' = [(123, ''Alice'')]" by (simp add: r)
  have c: "ws_matches book_marked (4, 4) = Empty \<and> ws_matches book_marked (4, 5) = Empty"
    by (simp add: book_marked_def empty_book_def)
  show ?thesis using m l r e w f c by simp
qed

text \<open>
  C2. Claim: once a pairing has 11 in either score cell, no later write of either phase
  changes either of its two cells. Phase 1 keeps to that (the guard of
  \<^verbatim>\<open>write_score_to_excel\<close>, lemma \<open>phase1_match_finished\<close>); Phase 2 has no guard.
  Two failing inputs. In the first the pairing (Alice, Bob) stands at 11 to 7 and the
  export of match 123 has "Wins" in the right column, so Step 3 names the opponent Bob as
  winner and Phase 2 puts 11 into Bob's cell. In the second the remote data agree with each
  other (Alice on the left, "Wins" on the left); Step 2 discovers match 123 from Bob's page
  for the pairing (Bob, Alice), Step 3 reads Bob's page last and names its owner Bob as
  winner, and Phase 2 puts 11 into the row cell of Bob's finished 7 to 11.
\<close>

theorem phase2_changes_finished_pairing:
  "ws_matches book_finished (4, 4) = IntV 11 \<and> ws_matches book_finished (4, 5) = IntV 7 \<and>
   (case run site_wins_right book_finished of
      Inl e \<Rightarrow> False
    | Inr s \<Rightarrow> finished_by_id s = [(123, ''Bob'')] \<and>
               ws_matches s (4, 4) = IntV 11 \<and> ws_matches s (4, 5) = IntV 11) \<and>
   ws_matches book_two_pages (5, 2) = IntV 7 \<and> ws_matches book_two_pages (5, 3) = IntV 11 \<and>
   (case run site_two_pages book_two_pages of
      Inl e \<Rightarrow> False
    | Inr s \<Rightarrow> match_id_to_excel s = [(123, ''Bob'', ''Alice'', False)] \<and>
               finished_by_id s = [(123, ''Bob'')] \<and>
               ws_matches s (5, 2) = IntV 11 \<and> ws_matches s (5, 3) = IntV 11)"
  by code_simp

text \<open>
  C3, as amended. For a decided match whose pairing is in the mapping and whose two players
  are both in the name column of the score grid, Phase 2 writes 11 into one cell and
  leaves every other cell as it is: for a Normal pairing the row player's cell when the
  winner's name is the row player's (case-insensitive), the column opponent's cell when it
  is the opponent's; for a Switched pairing the two cells are exchanged; and when the
  winner's name is neither of the two, nothing is written.
\<close>

theorem terminal_write_winner_axis:
  assumes "map_of (match_id_to_excel s) match_id = Some (p, opp, sw)"
    and "index_of (players_in_matches s) p = Some i"
    and "index_of (players_in_matches s) opp = Some j"
  shows "ws_matches (phase2_match (match_id, winner_name) s) =
           (if lower (strip winner_name) = lower p
            then (ws_matches s)((i + 4, (if sw then 3 else 2) + 2 * j) := IntV 11)
            else if lower (strip winner_name) = lower opp
            then (ws_matches s)((i + 4, (if sw then 2 else 3) + 2 * j) := IntV 11)
            else ws_matches s)"
  using assms by (simp add: phase2_match_def Let_def col_start_def mult.commute numeral_3_eq_3)

theorem terminal_write_winner_axis_witness:
  "ws_matches (phase2_match (123, ''Alice'') book_phase2) (4, 4) = IntV 11 \<and>
   ws_matches (phase2_match (123, ''Alice'') book_phase2) (4, 5) = IntV 7"
proof -
  have m: "map_of (match_id_to_excel book_phase2) 123 = Some (''Alice'', ''Bob'', False)"
    by code_simp
  have i: "index_of (players_in_matches book_phase2) ''Alice'' = Some 0"
    by code_simp
  have j: "index_of (players_in_matches book_phase2) ''Bob'' = Some 1"
    by code_simp
  have w: "lower (strip ''Alice'') = lower ''Alice''"
    by code_simp
  have c: "ws_matches book_phase2 (4, 5) = IntV 7"
    by (simp add: book_phase2_def empty_book_def)
  from terminal_write_winner_axis[OF m i j, of "''Alice''"] w c show ?thesis by simp
qed

text \<open>
  The claim as stated sends every winner who is not the row player to the column cell.
  Here the grid calls Alice's opponent "Bob S." and the remote site calls him "Bob": the
  match is reported decided for "Bob", its pairing is in the mapping, the winner is not the
  row player, and the column cell stays empty.
\<close>

theorem terminal_write_counterexample:
  "(case run site_no_match_page book_variant of
      Inl e \<Rightarrow> False
    | Inr s \<Rightarrow> finished_by_id s = [(123, ''Bob'')] \<and>
               map_of (match_id_to_excel s) 123 = Some (''Alice'', ''Bob S.'', False) \<and>
               players_in_matches s = [''Alice'', ''Bob S.''] \<and>
               ws_matches s (4, 4) = Empty \<and> ws_matches s (4, 5) = Empty)"
  by code_simp

text \<open>
  C4. Claim: within one run the page of a match is fetched at most once, also when the same
  identifier stands in both oriented cells and when the page was requested before Phase 1.
  Step 1 fetches for every populated cell without looking into the cache, and Phase 1
  fetches again whenever the cache holds no page. The failing inputs: match 123 in the
  cells (Alice, Bob) and (Bob, Alice) is requested twice by Step 1; a page that Step 1
  could not get is requested again by Phase 1.
\<close>

theorem match_page_fetched_twice:
  "(case run site_running book_both_cells of
      Inl e \<Rightarrow> False
    | Inr s \<Rightarrow> requests s = [GetMatch 123, GetMatch 123]) \<and>
   (case run site_no_match_page book_variant of
      Inl e \<Rightarrow> False
    | Inr s \<Rightarrow> requests s = [GetMatch 123, GetUser ''1'', GetExport 123, GetMatch 123])"
  by code_simp

text \<open>
  C5. Claim: after the login no failed request ends the run. The request of
  \<^verbatim>\<open>get_player_matches\<close> in Step 2 has no handler (Step 3 asks for the same page
  inside \<^verbatim>\<open>try\<close>): when Alice's page answers with an error status, or the
  request itself fails, the run ends with the exception.
\<close>

theorem player_page_failure_aborts_run:
  "(case run site_user_page_down book_new of Inl e \<Rightarrow> e = HTTPError | Inr s \<Rightarrow> False) \<and>
   (case run (site_user_page_down\<lparr>user_page := (\<lambda>p. RequestException)\<rparr>) book_new of
      Inl e \<Rightarrow> e = ConnectionError
    | Inr s \<Rightarrow> False)"
  by code_simp

text \<open>
  C6. For a Normal pairing whose extracted names match the grid's names in neither order,
  the mapper decides by containment of the row player's name alone, left name first; the
  column opponent's name enters the outer test only and assigns nothing, so without
  containment of the row player's name the mapper abstains. When it abstains, the body
  of the Phase 1 loop leaves the score grid as it is.
\<close>

theorem substring_fallback_and_abstention:
  assumes "\<not> (lower (strip left_name) = lower (strip player) \<and>
              lower (strip right_name) = lower (strip opponent))"
    and "\<not> (lower (strip left_name) = lower (strip opponent) \<and>
             lower (strip right_name) = lower (strip player))"
  shows "map_scores_for_excel player opponent left_name right_name ls rs False =
           (if contains (lower (strip player)) (lower (strip left_name)) then Some (ls, rs)
            else if contains (lower (strip player)) (lower (strip right_name)) then Some (rs, ls)
            else None)
         \<and> (map_scores_for_excel player opponent left_name right_name ls rs False = None \<longrightarrow>
              (\<forall>env match_id s h.
                 fst (phase1_html env match_id s) = Some h \<longrightarrow>
                 extract_latest_score env h (players_in_matches s) =
                   Some (left_name, right_name, ls, rs) \<longrightarrow>
                 ws_matches (phase1_match env (match_id, player, opponent, False) s) = ws_matches s))"
proof (intro conjI impI allI)
  show "map_scores_for_excel player opponent left_name right_name ls rs False =
           (if contains (lower (strip player)) (lower (strip left_name)) then Some (ls, rs)
            else if contains (lower (strip player)) (lower (strip right_name)) then Some (rs, ls)
            else None)"
  proof -
    have e1: "(lower (strip left_name) = lower (strip player) \<and>
               lower (strip right_name) = lower (strip opponent)) = False"
      using assms(1) by (rule eq_False[THEN iffD2])
    have e2: "(lower (strip left_name) = lower (strip opponent) \<and>
               lower (strip right_name) = lower (strip player)) = False"
      using assms(2) by (rule eq_False[THEN iffD2])
    show ?thesis
      unfolding map_scores_for_excel_def Let_def e1 e2 if_False
      by (cases "contains (lower (strip player)) (lower (strip left_name))";
          cases "contains (lower (strip player)) (lower (strip right_name))") simp_all
  qed
next
  fix env match_id s h
  assume n: "map_scores_for_excel player opponent left_name right_name ls rs False = None"
    and a: "fst (phase1_html env match_id s) = Some h"
    and e: "extract_latest_score env h (players_in_matches s) = Some (left_name, right_name, ls, rs)"
  obtain s1 where p: "phase1_html env match_id s = (Some h, s1)"
    using a by (cases "phase1_html env match_id s") auto
  from scoring_phase1_html[OF p] have f: "frame s s1" and w: "ws_matches s1 = ws_matches s"
    by (simp_all add: scoring_def)
  have pim: "players_in_matches s1 = players_in_matches s"
    using frame_headers[OF f] by simp
  show "ws_matches (phase1_match env (match_id, player, opponent, False) s) = ws_matches s"
    by (simp add: phase1_match_def p pim e n w)
qed

theorem substring_fallback_and_abstention_witness:
  "map_scores_for_excel ''Eve'' ''Frank'' ''Carol'' ''Dave'' 3 5 False = None \<and>
   map_scores_for_excel ''Bob'' ''Al'' ''Alice'' ''Bobby'' 5 3 False = Some (3, 5) \<and>
   map_scores_for_excel ''Eve'' ''Al'' ''Alice'' ''Dave'' 5 3 False = None \<and>
   ws_matches (phase1_match site_strangers (123, ''Eve'', ''Frank'', False) book_strangers)
     = ws_matches book_strangers"
proof -
  have a1: "\<not> (lower (strip ''Carol'') = lower (strip ''Eve'') \<and>
                lower (strip ''Dave'') = lower (strip ''Frank''))"
    by code_simp
  have a2: "\<not> (lower (strip ''Carol'') = lower (strip ''Frank'') \<and>
                lower (strip ''Dave'') = lower (strip ''Eve''))"
    by code_simp
  have a3: "(if contains (lower (strip ''Eve'')) (lower (strip ''Carol'')) then Some (3::int, 5::int)
             else if contains (lower (strip ''Eve'')) (lower (strip ''Dave'')) then Some (5, 3)
             else None) = None"
    by code_simp
  have b1: "\<not> (lower (strip ''Alice'') = lower (strip ''Bob'') \<and>
                lower (strip ''Bobby'') = lower (strip ''Al''))"
    by code_simp
  have b2: "\<not> (lower (strip ''Alice'') = lower (strip ''Al'') \<and>
                lower (strip ''Bobby'') = lower (strip ''Bob''))"
    by code_simp
  have b3: "(if contains (lower (strip ''Bob'')) (lower (strip ''Alice'')) then Some (5::int, 3::int)
             else if contains (lower (strip ''Bob'')) (lower (strip ''Bobby'')) then Some (3, 5)
             else None) = Some (3, 5)"
    by code_simp
  have c1: "\<not> (lower (strip ''Alice'') = lower (strip ''Eve'') \<and>
                lower (strip ''Dave'') = lower (strip ''Al''))"
    by code_simp
  have c2: "\<not> (lower (strip ''Alice'') = lower (strip ''Al'') \<and>
                lower (strip ''Dave'') = lower (strip ''Eve''))"
    by code_simp
  have c3: "(if contains (lower (strip ''Eve'')) (lower (strip ''Alice'')) then Some (5::int, 3::int)
             else if contains (lower (strip ''Eve'')) (lower (strip ''Dave'')) then Some (3, 5)
             else None) = None"
    by code_simp
  have h: "fst (phase1_html site_strangers 123 book_strangers) = Some ''match123''"
    by code_simp
  have x: "extract_latest_score site_strangers ''match123'' (players_in_matches book_strangers)
           = Some (''Carol'', ''Dave'', 3, 5)"
    by code_simp
  note t = substring_fallback_and_abstention[OF a1 a2, of 3 5]
  have n: "map_scores_for_excel ''Eve'' ''Frank'' ''Carol'' ''Dave'' 3 5 False = None"
    using t a3 by simp
  have "ws_matches (phase1_match site_strangers (123, ''Eve'', ''Frank'', False) book_strangers)
          = ws_matches book_strangers"
    using t n h x by blast
  moreover have "map_scores_for_excel ''Bob'' ''Al'' ''Alice'' ''Bobby'' 5 3 False = Some (3, 5)"
    using substring_fallback_and_abstention[OF b1 b2, of 5 3] b3 by simp
  moreover have "map_scores_for_excel ''Eve'' ''Al'' ''Alice'' ''Dave'' 5 3 False = None"
    using substring_fallback_and_abstention[OF c1 c2, of 5 3] c3 by simp
  ultimately show ?thesis using n by simp
qed

text \<open>
  C7. Claim: at the end of a run the grid is marked complete if and only if every
  off-diagonal identifier cell is non-empty; a newly added player unmarks it. The code
  sets the marker when the scan finds no empty cell and has no line that takes it away;
  and the marker, once read, switches Steps 1 and 2 off. So a run that starts with the
  marker ends with the marker and with the "Links" grid untouched, whatever the grid
  holds: the run says "All match IDs already filled" over an empty cell, and the
  identifier of the new pairing is never looked for, against the docstring
  ("If a match\_id cell is empty, the script searches DG").
\<close>

theorem stale_marker_blocks_discovery:
  assumes "ws_control s = StrV sentinel" and "run env s = Inr s'"
  shows "ws_control s' = StrV sentinel \<and> ws_links s' = ws_links s"
proof -
  have sk: "skip_fetching s" using assms(1) by (simp add: skip_fetching_def)
  from assms(2) obtain s2 where e: "s' = mark_complete (phase2 (phase1 env (step3 env s2)))"
    and s2: "s2 = write_flag_headers (start s)"
    by (rule run_discovery) (use sk in blast)
  have q: "quiet s s2"
    unfolding s2 by (rule quiet_trans[OF quiet_start quiet_write_flag_headers])
  let ?s5 = "phase2 (phase1 env (step3 env s2))"
  have a: "quiet s2 (step3 env s2)" by (rule quiet_step3)
  have b: "scoring (step3 env s2) ?s5"
    by (rule scoring_trans[OF scoring_phase1 scoring_phase2])
  have l: "ws_links ?s5 = ws_links s"
    using q a b by (simp add: quiet_def scoring_def)
  have "frame s ?s5"
    using q a b by (auto simp: quiet_def scoring_def intro: frame_trans)
  then have c: "ws_control ?s5 = StrV sentinel"
    using assms(1) by (simp add: frame_def)
  show ?thesis
    by (simp add: e mark_complete_control mark_complete_frame c l)
qed

text \<open>
  The failing input: the marker dates from the time of Alice and Bob, Carol has been added,
  the cell (Alice, Carol) in row 2, column 4 is empty and Alice's page lists match 300
  against Carol. Two runs in succession leave the cell empty and the marker in place; the
  same workbook without the marker gets the identifier in one run.
\<close>

theorem stale_marker_blocks_discovery_witness:
  "ws_control book_carol_added = StrV sentinel \<and> ws_links book_carol_added (2, 4) = Empty \<and>
   (\<exists>s'. run site_carol_listed book_carol_added = Inr s' \<and>
         row_players_links s' ! 0 = ''Alice'' \<and> col_opponents_links s' ! 2 = ''Carol'' \<and>
         map_of (col_index_links s') ''Carol'' = Some 4 \<and>
         ws_control s' = StrV sentinel \<and> ws_links s' = ws_links book_carol_added \<and>
         ws_links s' (2, 4) = Empty \<and>
         (\<exists>s''. run site_carol_listed s' = Inr s'' \<and> ws_control s'' = StrV sentinel \<and>
                ws_links s'' (2, 4) = Empty)) \<and>
   (case run site_carol_listed (book_carol_added\<lparr>ws_control := Empty\<rparr>) of
      Inl e \<Rightarrow> False
    | Inr t \<Rightarrow> ws_links t (2, 4) = StrV ''300'')"
proof -
  have m: "ws_control book_carol_added = StrV sentinel"
    by (simp add: book_carol_added_def)
  have n: "ws_links book_carol_added (2, 4) = Empty"
    by (simp add: book_carol_added_def empty_book_def)
  have "case run site_carol_listed book_carol_added of
          Inl e \<Rightarrow> False
        | Inr t \<Rightarrow> row_players_links t ! 0 = ''Alice'' \<and> col_opponents_links t ! 2 = ''Carol'' \<and>
                   map_of (col_index_links t) ''Carol'' = Some 4 \<and>
                   (case run site_carol_listed t of Inl e \<Rightarrow> False | Inr u \<Rightarrow> True)"
    by code_simp
  then obtain s' s'' where r: "run site_carol_listed book_carol_added = Inr s'"
    and h: "row_players_links s' ! 0 = ''Alice''" "col_opponents_links s' ! 2 = ''Carol''"
           "map_of (col_index_links s') ''Carol'' = Some 4"
    and r2: "run site_carol_listed s' = Inr s''"
    by (auto split: sum.splits)
  from stale_marker_blocks_discovery[OF m r]
  have c: "ws_control s' = StrV sentinel" and l: "ws_links s' = ws_links book_carol_added"
    by simp_all
  from stale_marker_blocks_discovery[OF c r2]
  have c2: "ws_control s'' = StrV sentinel" and l2: "ws_links s'' = ws_links s'"
    by simp_all
  have u: "case run site_carol_listed (book_carol_added\<lparr>ws_control := Empty\<rparr>) of
             Inl e \<Rightarrow> False
           | Inr t \<Rightarrow> ws_links t (2, 4) = StrV ''300''"
    by code_simp
  show ?thesis
    using m n r h c l r2 c2 l2 u by simp
qed

text \<open>
  C8. Claim: a second run on the result of the first, with the same remote data, changes no
  cell. The failing input: a moderator has entered match 123 in the cell (Bob, Alice),
  the remote site lists Alice on the left. The first run finds the pairing Switched in
  Step 1, discovers the same match for (Alice, Bob) in Step 2, hands the Switched flag on,
  and writes the swapped scores into Alice's row. The second run meets the flag of the cell
  (Alice, Bob), registers it Normal without a fetch, then registers (Bob, Alice) Switched
  for the same match, and writes into Bob's row, which the first run had left empty.
\<close>

theorem second_run_changes_grid:
  "(case run site_running book_by_hand of
      Inl e \<Rightarrow> False
    | Inr s \<Rightarrow>
        (case run site_running s of
           Inl e \<Rightarrow> False
         | Inr s' \<Rightarrow> ws_matches s (5, 2) = Empty \<and> ws_matches s' (5, 2) = IntV 3 \<and>
                     ws_matches s (5, 3) = Empty \<and> ws_matches s' (5, 3) = IntV 5))"
  by code_simp

text \<open>
  C9, as amended. An identifier cell of the "Links" grid whose value is true in Python's
  sense at the start of a run (not \<^verbatim>\<open>None\<close>, not the number 0, not the empty
  string) has the same value at the end of the run: the only write to the grid, in
  Step 2, is guarded by \<^verbatim>\<open>if not cell.value\<close>, also when the remote site reports
  another identifier for the pairing.
\<close>

theorem identifier_cells_append_only:
  assumes "run env s = Inr s'" and "truthy (ws_links s rc)"
  shows "ws_links s' rc = ws_links s rc"
proof -
  from assms(1) obtain s2 where g: "grows s s2"
    and e: "s' = mark_complete (phase2 (phase1 env (step3 env s2)))"
    by (rule run_discovery)
  have "keeps_ids s s2" using g by (simp add: grows_def)
  moreover have "keeps_ids s2 (phase2 (phase1 env (step3 env s2)))"
    using run_scoring by simp
  ultimately have "keeps_ids s (phase2 (phase1 env (step3 env s2)))"
    by (rule keeps_ids_trans)
  then show ?thesis using assms(2) by (cases rc) (simp add: e mark_complete_frame keeps_ids_def)
qed

text \<open>
  The cell (Alice, Bob) holds 100 and the remote site reports match 200 for the pairing:
  the cell keeps 100, while the empty cell (Alice, Carol) receives the discovered 300.
\<close>

theorem identifier_cells_append_only_witness:
  "\<exists>s'. run site_other_id book_populated = Inr s' \<and> ws_links book_populated (2, 3) = IntV 100 \<and>
        ws_links s' (2, 3) = IntV 100 \<and> ws_links book_populated (2, 4) = Empty \<and>
        ws_links s' (2, 4) = StrV ''300''"
proof -
  have "case run site_other_id book_populated of Inl e \<Rightarrow> False
        | Inr t \<Rightarrow> ws_links t (2, 4) = StrV ''300''"
    by code_simp
  then obtain s' where r: "run site_other_id book_populated = Inr s'"
    and d: "ws_links s' (2, 4) = StrV ''300''"
    by (cases "run site_other_id book_populated") auto
  have b: "ws_links book_populated (2, 3) = IntV 100 \<and> ws_links book_populated (2, 4) = Empty"
    by (simp add: book_populated_def empty_book_def)
  then have t: "truthy (ws_links book_populated (2, 3))" by simp
  from identifier_cells_append_only[OF r t] b r d show ?thesis by simp
qed

text \<open>
  The claim as stated, for every non-empty cell, fails for a cell that holds the number 0:
  the cell is not empty, Step 1 and the guard of Step 2 take it for empty, and the
  discovered identifier 200 replaces it.
\<close>

theorem identifier_cells_counterexample:
  "ws_links book_zero (2, 3) = IntV 0 \<and> ws_links book_zero (2, 3) \<noteq> Empty \<and>
   (case run site_other_id book_zero of
      Inl e \<Rightarrow> False
    | Inr s \<Rightarrow> ws_links s (2, 3) = StrV ''200'')"
  by code_simp

text \<open>
  C10. Phase 1 writes the mapped scores as extracted: when neither cell of the pairing
  holds 11, the two cells receive the two extracted scores, whatever they are. So an
  extracted 11 reaches the grid in Phase 1 and the pairing is finished without Phase 2.
\<close>

theorem phase1_writes_extracted_scores:
  assumes "fst (phase1_html env match_id s) = Some h" and "h \<noteq> []"
    and "extract_latest_score env h (players_in_matches s) = Some (left_name, right_name, ls, rs)"
    and "map_scores_for_excel p opp left_name right_name ls rs sw = Some (a, b)"
    and "index_of (players_in_matches s) p = Some i"
    and "index_of (players_in_matches s) opp = Some j"
    and "ws_matches s (i + 4, 2 + 2 * j) \<noteq> IntV 11"
    and "ws_matches s (i + 4, 3 + 2 * j) \<noteq> IntV 11"
  shows "ws_matches (phase1_match env (match_id, p, opp, sw) s) (i + 4, 2 + 2 * j) = IntV a \<and>
         ws_matches (phase1_match env (match_id, p, opp, sw) s) (i + 4, 3 + 2 * j) = IntV b \<and>
         ((a, b) = (ls, rs) \<or> (a, b) = (rs, ls))"
proof -
  obtain s1 where ph: "phase1_html env match_id s = (Some h, s1)"
    using assms(1) by (cases "phase1_html env match_id s") auto
  from scoring_phase1_html[OF ph] have f: "frame s s1" and w: "ws_matches s1 = ws_matches s"
    by (simp_all add: scoring_def)
  have pim: "players_in_matches s1 = players_in_matches s"
    using frame_headers[OF f] by simp
  have c: "col_start + j * 2 = 2 + 2 * j" "Suc (col_start + j * 2) = 3 + 2 * j"
    by (simp_all add: col_start_def)
  have "phase1_match env (match_id, p, opp, sw) s =
          s1\<lparr>ws_matches := (ws_matches s1)((i + 4, 2 + 2 * j) := IntV a, (i + 4, 3 + 2 * j) := IntV b)\<rparr>"
    using assms(2,7,8)
    by (simp add: phase1_match_def ph pim assms(3,4,5,6) write_score_to_excel_def Let_def w c
        del: add_2_eq_Suc add_2_eq_Suc')
  then have "ws_matches (phase1_match env (match_id, p, opp, sw) s) (i + 4, 2 + 2 * j) = IntV a \<and>
         ws_matches (phase1_match env (match_id, p, opp, sw) s) (i + 4, 3 + 2 * j) = IntV b"
    by simp
  moreover have "(a, b) = (ls, rs) \<or> (a, b) = (rs, ls)"
    by (rule map_scores_swap_or_keep[OF assms(4)])
  ultimately show ?thesis by blast
qed

text \<open>The grid stands at 9 to 7, the page of match 123 shows 11 to 7: Phase 1 alone
  finishes the pairing.\<close>

theorem phase1_writes_extracted_scores_witness:
  "ws_matches book_phase1 (4, 4) = IntV 9 \<and>
   ws_matches (phase1_match site_decided (123, ''Alice'', ''Bob'', False) book_phase1) (4, 4) = IntV 11 \<and>
   ws_matches (phase1_match site_decided (123, ''Alice'', ''Bob'', False) book_phase1) (4, 5) = IntV 7 \<and>
   ws_matches (phase1 site_decided book_phase1) (4, 4) = IntV 11"
proof -
  have h: "fst (phase1_html site_decided 123 book_phase1) = Some ''match123''"
    by code_simp
  have x: "extract_latest_score site_decided ''match123'' (players_in_matches book_phase1)
           = Some (''Alice'', ''Bob'', 11, 7)"
    by code_simp
  have m: "map_scores_for_excel ''Alice'' ''Bob'' ''Alice'' ''Bob'' 11 7 False = Some (11, 7)"
    by code_simp
  have i: "index_of (players_in_matches book_phase1) ''Alice'' = Some 0"
    by code_simp
  have j: "index_of (players_in_matches book_phase1) ''Bob'' = Some 1"
    by code_simp
  have c: "ws_matches book_phase1 (4, 4) = IntV 9 \<and> ws_matches book_phase1 (4, 5) = IntV 7"
    by (simp add: book_phase1_def empty_book_def)
  have l: "ws_matches book_phase1 (0 + 4, 2 + 2 * 1) \<noteq> IntV 11"
    using c by simp
  have r: "ws_matches book_phase1 (0 + 4, 3 + 2 * 1) \<noteq> IntV 11"
    using c by simp
  have p: "phase1 site_decided book_phase1
           = phase1_match site_decided (123, ''Alice'', ''Bob'', False) book_phase1"
    by (simp add: phase1_def book_phase1_def)
  from phase1_writes_extracted_scores[OF h _ x m i j l r] c p show ?thesis by simp
qed


end
